theory Spec2Isabelle
  imports Complex_Main "HOL-Library.Sublist"
begin

section \<open>Data model (models/Generation.js)\<close>

text \<open>
  Dates are milliseconds since the epoch. A field that may be \<open>undefined\<close> in the
  stored document is an option. Numbers that hold counters are integers; money is
  kept as an exact rational, so the double rounding of JavaScript is not part of
  the model. A document id is the string of its ObjectId. The arrays \<open>jiraTickets\<close> and \<open>pdfAttachments\<close> and the
  timestamp \<open>updatedAt\<close> kept by the database layer are never written by the
  routes and are left out. A document array such as \<open>version\<close> is always an array in
  a loaded document, so it is a list and not an optional list.
\<close>

type_synonym date = nat
type_synonym gen_id = string

datatype gen_status = Completed | Failed
datatype gen_mode = Manual | Auto

record markdown =
  content :: "string option"
  filename :: "string option"

record version_entry =
  ver_version :: int
  ver_content :: string
  ver_updatedAt :: date
  ver_updatedBy :: "string option"
  ver_notes :: "string option"

record token_usage =
  promptTokens :: nat
  completionTokens :: nat
  totalTokens :: nat

record generation =
  issueKey :: string
  email :: "string option"
  project :: "string option"
  mode :: "gen_mode option"
  status :: "gen_status option"
  createdAt :: date
  startedAt :: "date option"
  completedAt :: "date option"
  generationTimeSeconds :: "rat option"
  cost :: "rat option"
  tokenUsage :: "token_usage option"
  result_markdown :: "markdown option"
  error :: "string option"
  published :: bool
  publishedAt :: "date option"
  publishedBy :: "string option"
  version :: "version_entry list"
  currentVersion :: "int option"

text \<open>The collection of generations, keyed by document id.\<close>

type_synonym store = "gen_id \<rightharpoonup> generation"

section \<open>Requests and responses\<close>

text \<open>
  The requester is known to a handler by \<open>req.user.email\<close>, which \<open>requireAuth\<close>
  copies from the payload of the token; it is absent when the payload has no
  e-mail. A field of a JSON request body is kept as far as the handlers look at
  its type.
\<close>

datatype json_value = JUndefined | JNull | JBool bool | JNum int | JStr string

text \<open>
  The route parameter \<open>:id\<close> as the database layer casts it: \<open>findById\<close>
  rejects with a \<open>CastError\<close> for a string that is no ObjectId (which strings
  are is decided outside the sources), and looks an ObjectId up.
\<close>

datatype id_param = MalformedId string | ObjectId gen_id

definition cast_error :: "string \<Rightarrow> string" where
  "cast_error s = ''CastError: Cast to ObjectId failed for value '' @ s"

record view_data =
  vd_email :: "string option"
  vd_content :: string
  vd_filename :: string
  vd_issueKey :: string
  vd_projectKey :: "string option"
  vd_published :: bool
  vd_publishedAt :: "date option"
  vd_publishedBy :: "string option"
  vd_currentVersion :: int
  vd_version :: "version_entry list"
  vd_lastUpdatedBy :: "string option"

record created_data =
  cd_generationId :: gen_id
  cd_issueKey :: string
  cd_markdown :: markdown
  cd_generationTimeSeconds :: "rat option"
  cd_cost :: "rat option"

text \<open>
  A JavaScript number as the list route computes with it: \<open>parseInt\<close> yields an
  integer or \<open>NaN\<close>, and \<open>NaN\<close> goes through \<open>Math.max\<close>, \<open>Math.min\<close> and
  the arithmetic operators unchanged.
\<close>

datatype jsnum = NaN | Num int

record preflight_data =
  pf_issueKey :: string
  pf_title :: string
  pf_description :: string
  pf_attachments :: nat
  pf_estimatedTokens :: nat
  pf_estimatedCost :: rat

record pagination =
  pg_page :: jsnum
  pg_limit :: jsnum
  pg_total :: nat
  pg_pages :: jsnum

text \<open>
  \<open>Json code body\<close> is \<open>res.status(code).json(body)\<close>; \<open>SendFile\<close> is the
  download response with its file name and body; \<open>Next\<close> is an exception caught by
  the handler and passed to the error middleware; \<open>Uncaught\<close> is an exception
  that leaves a handler which has no \<open>try\<close> around it.
\<close>

datatype payload =
    Failure "string option"
  | ContentData string int
  | PublishData bool "date option" "string option"
  | ViewData view_data
  | CreatedData created_data
  | Deleted
  | PreflightData preflight_data
  | ListData "generation list" pagination

datatype response =
    Json nat payload
  | SendFile string string
  | Next string
  | Uncaught string

definition not_found :: response where
  "not_found = Json 404 (Failure (Some ''Not found''))"

section \<open>Saving a document\<close>

text \<open>
  \<open>gen.save()\<close> validates the document against the schema before it writes. The
  one rule the routes can break is \<open>updatedBy: { required: true }\<close> of the
  version schema: every entry of the history must carry a non-empty \<open>updatedBy\<close>
  (the keys \<open>require\<close> of \<open>version\<close> and \<open>content\<close> are not the schema's
  \<open>required\<close> and demand nothing). When the validation fails nothing is written
  and \<open>save\<close> throws.
\<close>

definition valid_entry :: "version_entry \<Rightarrow> bool" where
  "valid_entry v = (case ver_updatedBy v of None \<Rightarrow> False | Some by \<Rightarrow> by \<noteq> [])"

definition validates :: "generation \<Rightarrow> bool" where
  "validates gen = list_all valid_entry (version gen)"

definition save :: "store \<Rightarrow> gen_id \<Rightarrow> generation \<Rightarrow> string + store" where
  "save db gid gen =
     (if validates gen then Inr (db(gid \<mapsto> gen))
      else Inl ''ValidationError: version: Path `updatedBy` is required.'')"

section \<open>Version store: PUT /:id/content\<close>

text \<open>\<open>gen.result?.markdown?.content || ''\<close>\<close>

definition currentContent :: "generation \<Rightarrow> string" where
  "currentContent gen =
     (case result_markdown gen of
        None \<Rightarrow> []
      | Some m \<Rightarrow> (case content m of None \<Rightarrow> [] | Some c \<Rightarrow> c))"

text \<open>\<open>gen.currentVersion || 1\<close>: an absent or zero number counts as 1.\<close>

definition currentVersionNum :: "generation \<Rightarrow> int" where
  "currentVersionNum gen =
     (case currentVersion gen of
        None \<Rightarrow> 1
      | Some n \<Rightarrow> if n = 0 then 1 else n)"

text \<open>
  Lines 365 to 390 of the handler: the snapshot of the outgoing content. The guard is
  \<open>currentContent && currentContent !== content\<close>, so an empty stored content
  takes no snapshot.
\<close>

definition track_version ::
  "generation \<Rightarrow> string \<Rightarrow> string option \<Rightarrow> date \<Rightarrow> generation" where
  "track_version gen new_content user_email now =
     (let cur = currentContent gen in
      if cur \<noteq> [] \<and> cur \<noteq> new_content then
        (let num = currentVersionNum gen;
             versionExists = list_ex (\<lambda>v. ver_version v = num) (version gen);
             vs = (if \<not> versionExists
                   then version gen @
                        [\<lparr>ver_version = num, ver_content = cur,
                          ver_updatedAt = now, ver_updatedBy = user_email,
                          ver_notes = None\<rparr>]
                   else version gen)
         in gen\<lparr>version := vs, currentVersion := Some (num + 1)\<rparr>)
      else gen)"

text \<open>Lines 392 to 395: the stored content is overwritten in every case.\<close>

definition set_content :: "generation \<Rightarrow> string \<Rightarrow> generation" where
  "set_content gen new_content =
     gen\<lparr>result_markdown :=
           Some (case result_markdown gen of
                   None \<Rightarrow> \<lparr>content = Some new_content, filename = None\<rparr>
                 | Some m \<Rightarrow> m\<lparr>content := Some new_content\<rparr>)\<rparr>"

definition updateContent ::
  "generation \<Rightarrow> string \<Rightarrow> string option \<Rightarrow> date \<Rightarrow> generation" where
  "updateContent gen new_content user_email now =
     set_content (track_version gen new_content user_email now) new_content"

text \<open>
  The handler. The body is checked first, then the document is looked up, and the
  edited document is saved; an exception of the lookup or of the save is caught and
  passed on.
\<close>

definition put_content ::
  "store \<Rightarrow> string option \<Rightarrow> id_param \<Rightarrow> json_value \<Rightarrow> date \<Rightarrow> response \<times> store" where
  "put_content db user_email rid body_content now =
     (case body_content of
        JStr new_content \<Rightarrow>
          (case rid of
             MalformedId s \<Rightarrow> (Next (cast_error s), db)
           | ObjectId gid \<Rightarrow>
               (case db gid of
                  None \<Rightarrow> (not_found, db)
                | Some gen \<Rightarrow>
                    if email gen \<noteq> user_email then (not_found, db)
                    else if status gen \<noteq> Some Completed then
                      (Json 400 (Failure (Some ''Can only update completed generations'')), db)
                    else
                      (let gen' = updateContent gen new_content user_email now
                       in case save db gid gen' of
                            Inl msg \<Rightarrow> (Next msg, db)
                          | Inr db' \<Rightarrow>
                              (Json 200 (ContentData new_content (currentVersionNum gen')),
                               db'))))
      | _ \<Rightarrow> (Json 400 (Failure (Some ''content must be a string'')), db))"

section \<open>Publication gate: PUT /:id/publish\<close>

definition put_publish ::
  "store \<Rightarrow> string option \<Rightarrow> id_param \<Rightarrow> json_value \<Rightarrow> date \<Rightarrow> response \<times> store" where
  "put_publish db user_email rid body_published now =
     (case body_published of
        JBool p \<Rightarrow>
          (case rid of
             MalformedId s \<Rightarrow> (Next (cast_error s), db)
           | ObjectId gid \<Rightarrow>
               (case db gid of
                  None \<Rightarrow> (not_found, db)
                | Some gen \<Rightarrow>
                    if email gen \<noteq> user_email then (not_found, db)
                    else if status gen \<noteq> Some Completed then
                      (Json 400 (Failure (Some ''Can only publish completed generations'')), db)
                    else
                      (let gen' =
                             (if p
                              then gen\<lparr>published := p, publishedAt := Some now,
                                       publishedBy := user_email\<rparr>
                              else gen\<lparr>published := p, publishedAt := None,
                                       publishedBy := None\<rparr>)
                       in case save db gid gen' of
                            Inl msg \<Rightarrow> (Next msg, db)
                          | Inr db' \<Rightarrow>
                              (Json 200 (PublishData (published gen') (publishedAt gen')
                                           (publishedBy gen')),
                               db'))))
      | _ \<Rightarrow> (Json 400 (Failure (Some ''Published must be a boolean'')), db))"

section \<open>Project key (utils/projectUtils.js)\<close>

text \<open>
  The pattern \<open>/^([A-Z0-9]+)-/i\<close>: the longest run of ASCII letters and digits at the
  start of the key, not empty and followed by a hyphen. The match is returned in
  upper case.
\<close>

definition is_alnum :: "char \<Rightarrow> bool" where
  "is_alnum c =
     (let n = (of_char c :: nat)
      in (48 \<le> n \<and> n \<le> 57) \<or> (65 \<le> n \<and> n \<le> 90) \<or> (97 \<le> n \<and> n \<le> 122))"

definition upper_char :: "char \<Rightarrow> char" where
  "upper_char c =
     (let n = (of_char c :: nat)
      in if 97 \<le> n \<and> n \<le> 122 then char_of (n - 32) else c)"

definition extractProject :: "string \<Rightarrow> string option" where
  "extractProject key =
     (if key = [] then None
      else (let m = takeWhile is_alnum key
            in if m \<noteq> [] \<and> take 1 (dropWhile is_alnum key) = ''-''
               then Some (map upper_char m) else None))"

section \<open>Access control: GET /:id/view and GET /:id/download\<close>

text \<open>\<open>gen.result?.markdown?.filename || 'output.md'\<close>\<close>

definition currentFilename :: "generation \<Rightarrow> string" where
  "currentFilename gen =
     (case result_markdown gen of
        None \<Rightarrow> ''output.md''
      | Some m \<Rightarrow>
          (case filename m of
             None \<Rightarrow> ''output.md''
           | Some f \<Rightarrow> if f = [] then ''output.md'' else f))"

text \<open>\<open>latestVersion?.updatedBy || gen.email\<close>, the last entry of the history.\<close>

definition lastUpdatedBy :: "generation \<Rightarrow> string option" where
  "lastUpdatedBy gen =
     (if version gen = [] then email gen
      else (case ver_updatedBy (last (version gen)) of
              None \<Rightarrow> email gen
            | Some by \<Rightarrow> if by = [] then email gen else Some by))"

definition get_view :: "store \<Rightarrow> string option \<Rightarrow> id_param \<Rightarrow> response" where
  "get_view db user_email rid =
     (case rid of
        MalformedId s \<Rightarrow> Next (cast_error s)
      | ObjectId gid \<Rightarrow>
          (case db gid of
             None \<Rightarrow> not_found
           | Some gen \<Rightarrow>
               (let isOwner = (email gen = user_email);
                    isPublishedAndCompleted = (published gen \<and> status gen = Some Completed)
                in if \<not> isOwner \<and> \<not> isPublishedAndCompleted then not_found
                   else Json 200 (ViewData
                          \<lparr>vd_email = email gen,
                           vd_content = currentContent gen,
                           vd_filename = currentFilename gen,
                           vd_issueKey = issueKey gen,
                           vd_projectKey = (if issueKey gen = [] then None
                                            else extractProject (issueKey gen)),
                           vd_published = published gen,
                           vd_publishedAt = publishedAt gen,
                           vd_publishedBy = publishedBy gen,
                           vd_currentVersion = currentVersionNum gen,
                           vd_version = version gen,
                           vd_lastUpdatedBy = lastUpdatedBy gen\<rparr>))))"

definition get_download :: "store \<Rightarrow> string option \<Rightarrow> id_param \<Rightarrow> response" where
  "get_download db user_email rid =
     (case rid of
        MalformedId s \<Rightarrow> Next (cast_error s)
      | ObjectId gid \<Rightarrow>
          (case db gid of
             None \<Rightarrow> not_found
           | Some gen \<Rightarrow>
               (let isOwner = (email gen = user_email);
                    isPublishedAndCompleted = (published gen \<and> status gen = Some Completed)
                in if \<not> isOwner \<and> \<not> isPublishedAndCompleted then not_found
                   else if status gen \<noteq> Some Completed then
                     Json 400 (Failure (Some ''Not completed''))
                   else SendFile (currentFilename gen) (currentContent gen))))"

text \<open>
  The predicate as the specification words it, to be compared with the checks the
  two handlers carry inline.
\<close>

definition canView :: "generation \<Rightarrow> string option \<Rightarrow> bool" where
  "canView gen requesterEmail =
     (email gen = requesterEmail \<or> (published gen \<and> status gen = Some Completed))"

section \<open>DELETE /:id\<close>

definition delete_generation ::
  "store \<Rightarrow> string option \<Rightarrow> id_param \<Rightarrow> response \<times> store" where
  "delete_generation db user_email rid =
     (case rid of
        MalformedId s \<Rightarrow> (Next (cast_error s), db)
      | ObjectId gid \<Rightarrow>
          (case db gid of
             None \<Rightarrow> (Json 404 (Failure (Some ''Generation not found'')), db)
           | Some gen \<Rightarrow>
               if email gen \<noteq> user_email then
                 (Json 403 (Failure (Some ''You can only delete your own generations'')), db)
               else (Json 200 Deleted, db(gid := None))))"

section \<open>Model invocation (services/openAIService.js)\<close>

text \<open>
  The two system prompts are long constant texts; only which of the two is sent
  matters here, so they are the two values of a type.
\<close>

datatype prompt = MANUAL_PROMPT | AUTO_PROMPT

text \<open>
  The reply of one \<open>chat.completions.create\<close> call: the call throws with a
  message, or it returns \<open>choices[0]?.message?.content\<close> and \<open>usage\<close>, each
  of which may be missing.
\<close>

record api_usage =
  prompt_tokens :: "nat option"
  completion_tokens :: "nat option"
  total_tokens :: "nat option"

datatype api_reply = ApiError string | ApiResponse "string option" "api_usage option"

text \<open>What a handler does to the outside world, in order.\<close>

datatype event =
    JiraGetIssue string
  | ChatCompletion prompt string
  | Wait nat

record gen_result =
  gr_content :: string
  gr_tokenUsage :: token_usage
  gr_cost :: rat

text \<open>
  \<open>generateTestCase\<close> throws, returns a result, or leaves its loop without a
  \<open>return\<close> (the function then yields \<open>undefined\<close>).
\<close>

datatype generate_outcome = Threw string | Returned gen_result | FellThrough

definition maxRetries :: nat where
  "maxRetries = 3"

definition or0 :: "nat option \<Rightarrow> nat" where
  "or0 x = (case x of None \<Rightarrow> 0 | Some n \<Rightarrow> n)"

definition totalCost :: "token_usage \<Rightarrow> rat" where
  "totalCost u =
     (let inputCost = (of_nat (promptTokens u) / 1000000) * (15 / 100);
          outputCost = (of_nat (completionTokens u) / 1000000) * (60 / 100)
      in inputCost + outputCost)"

text \<open>The body of the inner \<open>try\<close>: one call and the reading of its reply.\<close>

definition attempt :: "api_reply \<Rightarrow> string + gen_result" where
  "attempt reply =
     (case reply of
        ApiError msg \<Rightarrow> Inl msg
      | ApiResponse c usage \<Rightarrow>
          (case c of
             None \<Rightarrow> Inl ''Empty response from OpenAI''
           | Some text \<Rightarrow>
               if text = [] then Inl ''Empty response from OpenAI''
               else
                 (let tokenUsage =
                        (case usage of
                           None \<Rightarrow> \<lparr>promptTokens = 0, completionTokens = 0, totalTokens = 0\<rparr>
                         | Some u \<Rightarrow>
                             \<lparr>promptTokens = or0 (prompt_tokens u),
                              completionTokens = or0 (completion_tokens u),
                              totalTokens = or0 (total_tokens u)\<rparr>)
                  in Inr \<lparr>gr_content = text, gr_tokenUsage = tokenUsage,
                          gr_cost = totalCost tokenUsage\<rparr>)))"

text \<open>
  The \<open>while (retryCount <= this.maxRetries)\<close> loop. The model provider is a
  function from the number of the call (from 0) to its reply; the events so far are
  threaded through.
\<close>

function retry_loop ::
  "(nat \<Rightarrow> api_reply) \<Rightarrow> prompt \<Rightarrow> string \<Rightarrow> nat \<Rightarrow> event list
     \<Rightarrow> generate_outcome \<times> event list" where
  "retry_loop api systemPrompt issueContext retryCount trace =
     (if retryCount \<le> maxRetries then
        (case attempt (api retryCount) of
           Inr r \<Rightarrow> (Returned r, trace @ [ChatCompletion systemPrompt issueContext])
         | Inl err \<Rightarrow>
             (let retryCount' = retryCount + 1
              in if retryCount' \<le> maxRetries then
                   (let waitTime = 2 ^ retryCount' * 1000
                    in retry_loop api systemPrompt issueContext retryCount'
                         (trace @ [ChatCompletion systemPrompt issueContext, Wait waitTime]))
                 else (Threw err, trace @ [ChatCompletion systemPrompt issueContext])))
      else (FellThrough, trace))"
  by pat_completeness auto
termination
  by (relation "measure (\<lambda>(api, p, c, retryCount, trace). Suc maxRetries - retryCount)") auto

text \<open>The user message, built from the issue key and the context.\<close>

definition userMessage :: "string \<Rightarrow> string \<Rightarrow> string" where
  "userMessage key context = ''\<newline>\<newline>JIRA issue: '' @ key @ ''\<newline>\<newline>'' @ context"

text \<open>The parameter \<open>autoMode\<close> has the default \<open>false\<close>; \<open>images\<close> is never read.\<close>

definition generateTestCase ::
  "(nat \<Rightarrow> api_reply) \<Rightarrow> string \<Rightarrow> string \<Rightarrow> bool option \<Rightarrow> generate_outcome \<times> event list" where
  "generateTestCase api context key autoMode =
     (let auto = (case autoMode of None \<Rightarrow> False | Some b \<Rightarrow> b);
          systemPrompt = (if auto then AUTO_PROMPT else MANUAL_PROMPT);
          issueContext = userMessage key context
      in retry_loop api systemPrompt issueContext 0 [])"

section \<open>Generation engine: POST /testcases\<close>

text \<open>
  The issue tracker is outside the sources. \<open>getJiraService\<close> throws when the
  service cannot be built; otherwise \<open>getIssue\<close> answers with a failure and its
  message, or with the issue. Of the issue only the fields the routes read are kept;
  \<open>description_text\<close> is the description after \<open>extractTextFromADF\<close>.
\<close>

record attachment =
  mimeType :: "string option"

record issue_fields =
  summary :: "string option"
  description_text :: "string option"
  attachment :: "attachment list option"

datatype jira_reply =
    JiraUnavailable string
  | JiraFailure "string option"
  | JiraIssue issue_fields

text \<open>
  Everything a run of the handler takes from outside: the id the database gives the
  new document, the project lookup (\<open>None\<close> when \<open>findOrCreateProject\<close> throws; the
  project collection itself is not modelled), the tracker's reply, whether the model
  client can be built, the model's reply to each call, and the clock readings.
\<close>

record env =
  new_id :: gen_id
  findOrCreateProject :: "string \<Rightarrow> string option"
  jira :: jira_reply
  openai_ready :: bool
  api :: "nat \<Rightarrow> api_reply"
  now_created :: date
  now_started :: date
  startTime :: date
  now_completed :: date
  endTime :: date

definition or_empty :: "string option \<Rightarrow> string" where
  "or_empty x = (case x of None \<Rightarrow> [] | Some s \<Rightarrow> s)"

text \<open>Lines 241 to 244: a title line is put in front of a text that has none.\<close>

definition ensure_title :: "string \<Rightarrow> string \<Rightarrow> string \<Rightarrow> string" where
  "ensure_title markdownContent key summary_text =
     (if take 1 markdownContent = ''#'' then markdownContent
      else ''# Test Cases for '' @ key @ '': '' @
           (if summary_text = [] then ''Untitled'' else summary_text) @
           ''\<newline>\<newline>'' @ markdownContent)"

text \<open>
  The \<open>try\<close> block of lines 226 to 244; \<open>Inl\<close> is the message of the exception
  that reaches the \<open>catch\<close>. The route calls \<open>generateTestCase(context, issueKey)\<close>,
  without the third argument.
\<close>

definition generate_markdown ::
  "env \<Rightarrow> string \<Rightarrow> string \<Rightarrow> string
     \<Rightarrow> (string + string \<times> token_usage option \<times> rat option) \<times> event list" where
  "generate_markdown e context key summary_text =
     (if \<not> openai_ready e then
        (Inl ''email and apiToken are required on environment'', [])
      else
        (case generateTestCase (api e) context key None of
           (Threw msg, tr) \<Rightarrow> (Inl msg, tr)
         | (FellThrough, tr) \<Rightarrow> (Inl ''TypeError: result is undefined'', tr)
         | (Returned r, tr) \<Rightarrow>
             (Inr (ensure_title (gr_content r) key summary_text,
                   Some (gr_tokenUsage r), Some (gr_cost r)), tr)))"

text \<open>\<open>Math.round(x * 100) / 100\<close> of the elapsed seconds.\<close>

definition round2 :: "date \<Rightarrow> date \<Rightarrow> rat" where
  "round2 t0 t1 =
     (let generationTimeSeconds = (of_int (int t1 - int t0) :: rat) / 1000
      in of_int \<lfloor>generationTimeSeconds * 100 + 1 / 2\<rfloor> / 100)"

definition new_generation ::
  "string \<Rightarrow> string option \<Rightarrow> string option \<Rightarrow> env \<Rightarrow> generation" where
  "new_generation key user_email proj e =
     \<lparr>issueKey = key, email = user_email, project = proj, mode = Some Manual,
      status = None, createdAt = now_created e, startedAt = Some (now_started e),
      completedAt = None, generationTimeSeconds = None, cost = None,
      tokenUsage = None, result_markdown = None, error = None, published = False,
      publishedAt = None, publishedBy = None, version = [],
      currentVersion = Some 1\<rparr>"

text \<open>
  The handler. Each \<open>generation.save()\<close> of it writes a document whose history is
  empty, so that the validation of the save has nothing to refuse.
\<close>

definition post_testcases ::
  "store \<Rightarrow> string option \<Rightarrow> string option \<Rightarrow> env \<Rightarrow> response \<times> store \<times> event list" where
  "post_testcases db user_email body_issueKey e =
     (case body_issueKey of
        None \<Rightarrow> (Json 400 (Failure (Some ''issueKey required'')), db, [])
      | Some key \<Rightarrow>
          if key = [] then (Json 400 (Failure (Some ''issueKey required'')), db, [])
          else
            (let proj = (case extractProject key of
                            None \<Rightarrow> None
                          | Some projectKey \<Rightarrow> findOrCreateProject e projectKey);
                 gen = new_generation key user_email proj e;
                 db1 = db(new_id e \<mapsto> gen)
             in case jira e of
                  JiraUnavailable msg \<Rightarrow> (Next msg, db1, [])
                | JiraFailure err \<Rightarrow>
                    (let gen2 = gen\<lparr>status := Some Failed,
                                     error := Some (if or_empty err = []
                                                    then ''Failed to fetch JIRA issue''
                                                    else or_empty err),
                                     completedAt := Some (now_completed e)\<rparr>
                     in (Json 404 (Failure err), db1(new_id e \<mapsto> gen2),
                         [JiraGetIssue key]))
                | JiraIssue flds \<Rightarrow>
                    (let summary_text = or_empty (summary flds);
                         description = or_empty (description_text flds);
                         context = ''Title: '' @ summary_text @ '' Description:'' @ description
                     in case generate_markdown e context key summary_text of
                          (Inl msg, tr) \<Rightarrow>
                            (let gen2 = gen\<lparr>status := Some Failed,
                                             error := Some (''OpenAI generation failed: '' @ msg),
                                             completedAt := Some (now_completed e)\<rparr>
                             in (Json 500 (Failure (Some (if msg = []
                                                          then ''Failed to generate test cases''
                                                          else msg))),
                                 db1(new_id e \<mapsto> gen2), JiraGetIssue key # tr))
                        | (Inr (markdownContent, usage, c), tr) \<Rightarrow>
                            (let md = \<lparr>content = Some markdownContent,
                                       filename = Some (key @ ''_testcases_'' @ new_id e @ ''.md'')\<rparr>;
                                 gen2 = gen\<lparr>status := Some Completed,
                                             completedAt := Some (now_completed e),
                                             generationTimeSeconds :=
                                               Some (round2 (startTime e) (endTime e)),
                                             cost := c,
                                             tokenUsage := usage,
                                             result_markdown := Some md,
                                             currentVersion := Some 1,
                                             version := []\<rparr>
                             in (Json 200 (CreatedData
                                   \<lparr>cd_generationId = new_id e, cd_issueKey = key,
                                    cd_markdown = md,
                                    cd_generationTimeSeconds = generationTimeSeconds gen2,
                                    cd_cost = cost gen2\<rparr>),
                                 db1(new_id e \<mapsto> gen2), JiraGetIssue key # tr)))))"

section \<open>Cost estimator: POST /preflight\<close>

text \<open>\<open>s.includes(t)\<close>: \<open>t\<close> occurs in \<open>s\<close> as a contiguous piece.\<close>

fun str_includes :: "string \<Rightarrow> string \<Rightarrow> bool" where
  "str_includes [] t = (t = [])"
| "str_includes (c # s) t = (prefix t (c # s) \<or> str_includes s t)"

definition statusCode :: "string \<Rightarrow> nat" where
  "statusCode err =
     (if str_includes err ''authentication'' \<or> str_includes err ''forbidden'' then 401
      else if str_includes err ''not found'' then 404
      else 500)"

text \<open>
  \<open>attachment.filter(att => att.mimeType?.startWiths('image/'))\<close>. Strings have no
  method \<open>startWiths\<close>: for an attachment without a MIME type the optional chain
  gives \<open>undefined\<close> and the attachment is dropped; for the first attachment that
  has one, calling the missing method throws a \<open>TypeError\<close>.
\<close>

fun imageAttachments :: "attachment list \<Rightarrow> string + attachment list" where
  "imageAttachments [] = Inr []"
| "imageAttachments (att # rest) =
     (case mimeType att of
        Some m \<Rightarrow> Inl ''TypeError: att.mimeType?.startWiths is not a function''
      | None \<Rightarrow> imageAttachments rest)"

definition estimateTokens :: "nat \<Rightarrow> nat \<Rightarrow> nat" where
  "estimateTokens contextCharacter images =
     nat \<lceil>(of_nat contextCharacter :: rat) / 4\<rceil> + images * 200"

definition estimateCost :: "nat \<Rightarrow> rat" where
  "estimateCost estimatedTokens =
     (of_nat estimatedTokens / 1000000) * (15 / 100) + (8000 / 1000000) * (60 / 100)"

text \<open>
  The handler has no \<open>try\<close>, so an exception leaves it. The body of the answer
  prints the cost with five decimals; the model keeps the number.
\<close>

definition post_preflight :: "string option \<Rightarrow> jira_reply \<Rightarrow> response" where
  "post_preflight body_issueKey reply =
     (if or_empty body_issueKey = [] then Json 400 (Failure (Some ''issueKey required''))
      else
        (case reply of
           JiraUnavailable msg \<Rightarrow> Uncaught msg
         | JiraFailure err \<Rightarrow>
             (case err of
                None \<Rightarrow> Uncaught ''TypeError: issueResult.error is undefined''
              | Some m \<Rightarrow>
                  Json (statusCode m)
                    (Failure (Some (if m = [] then ''Issue not found in JIRA'' else m))))
         | JiraIssue flds \<Rightarrow>
             (let summary_text = or_empty (summary flds);
                  description = or_empty (description_text flds);
                  atts = (case attachment flds of None \<Rightarrow> [] | Some as \<Rightarrow> as)
              in case imageAttachments atts of
                   Inl msg \<Rightarrow> Uncaught msg
                 | Inr images \<Rightarrow>
                     (let contextText = summary_text @ '' '' @ description;
                          contextCharacter = length contextText;
                          estimatedTokens = estimateTokens contextCharacter (length images);
                          estimatedCost = estimateCost estimatedTokens
                      in Json 200 (PreflightData
                           \<lparr>pf_issueKey = or_empty body_issueKey,
                            pf_title = (if summary_text = [] then ''N/A'' else summary_text),
                            pf_description = description,
                            pf_attachments = length atts,
                            pf_estimatedTokens = estimatedTokens,
                            pf_estimatedCost = estimatedCost\<rparr>)))))"

section \<open>Listing and pagination: GET /\<close>

text \<open>
  \<open>parseInt(s, 10)\<close>: leading white space is skipped, a sign is read, then the
  longest run of decimal digits; with no digit the result is \<open>NaN\<close>.
\<close>

definition is_space :: "char \<Rightarrow> bool" where
  "is_space c = ((of_char c :: nat) \<in> {9, 10, 11, 12, 13, 32})"

definition is_digit :: "char \<Rightarrow> bool" where
  "is_digit c = (48 \<le> (of_char c :: nat) \<and> (of_char c :: nat) \<le> 57)"

definition digits_value :: "string \<Rightarrow> int" where
  "digits_value ds = foldl (\<lambda>a c. 10 * a + (int (of_char c) - 48)) 0 ds"

definition parseInt :: "string \<Rightarrow> jsnum" where
  "parseInt s =
     (let t = dropWhile is_space s;
          negative = (take 1 t = ''-'');
          u = (if take 1 t = ''-'' \<or> take 1 t = ''+'' then drop 1 t else t);
          ds = takeWhile is_digit u
      in if ds = [] then NaN
         else Num (if negative then - digits_value ds else digits_value ds))"

fun math_max :: "jsnum \<Rightarrow> jsnum \<Rightarrow> jsnum" where
  "math_max (Num a) (Num b) = Num (max a b)"
| "math_max _ _ = NaN"

fun math_min :: "jsnum \<Rightarrow> jsnum \<Rightarrow> jsnum" where
  "math_min (Num a) (Num b) = Num (min a b)"
| "math_min _ _ = NaN"

fun js_minus :: "jsnum \<Rightarrow> jsnum \<Rightarrow> jsnum" where
  "js_minus (Num a) (Num b) = Num (a - b)"
| "js_minus _ _ = NaN"

fun js_times :: "jsnum \<Rightarrow> jsnum \<Rightarrow> jsnum" where
  "js_times (Num a) (Num b) = Num (a * b)"
| "js_times _ _ = NaN"

text \<open>\<open>req.query.x || dflt\<close> for a query parameter that is absent or a string.\<close>

definition query_or :: "string option \<Rightarrow> string \<Rightarrow> string" where
  "query_or q dflt = (if or_empty q = [] then dflt else or_empty q)"

definition effective_page :: "string option \<Rightarrow> jsnum" where
  "effective_page q = math_max (Num 1) (parseInt (query_or q ''1''))"

definition effective_limit :: "string option \<Rightarrow> jsnum" where
  "effective_limit q = math_min (Num 50) (math_max (Num 1) (parseInt (query_or q ''10'')))"

definition skip_of :: "jsnum \<Rightarrow> jsnum \<Rightarrow> jsnum" where
  "skip_of pg lmt = js_times (js_minus pg (Num 1)) lmt"

text \<open>\<open>Math.ceil(total / limit)\<close>; the limit, when a number, is at least 1 here.\<close>

fun pages_of :: "nat \<Rightarrow> jsnum \<Rightarrow> jsnum" where
  "pages_of count (Num l) = (if l = 0 then NaN else Num \<lceil>(of_nat count :: rat) / of_int l\<rceil>)"
| "pages_of count NaN = NaN"

definition matches :: "string option \<Rightarrow> string option \<Rightarrow> generation \<Rightarrow> bool" where
  "matches filter_query user_email gen =
     (let filterType = query_or filter_query ''all''
      in if filterType = ''mine'' then email gen = user_email
         else if filterType = ''published'' then
           published gen \<and> status gen = Some Completed
         else email gen = user_email \<or> (published gen \<and> status gen = Some Completed))"

text \<open>\<open>sort({ createdAt: -1 })\<close>: most recent first.\<close>

definition newest_first :: "generation list \<Rightarrow> generation list" where
  "newest_first gens = sort_key (\<lambda>g. - int (createdAt g)) gens"

text \<open>
  The collection is given as the list of its documents. What the database does with
  a \<open>skip\<close> or \<open>limit\<close> that is \<open>NaN\<close> is outside the sources and is the
  parameter \<open>nan_answer\<close>: an exception (\<open>Inl\<close>) or some documents.
\<close>

definition get_list ::
  "generation list \<Rightarrow> string option \<Rightarrow> string option \<Rightarrow> string option \<Rightarrow> string option
     \<Rightarrow> (string + generation list) \<Rightarrow> response" where
  "get_list collection user_email page_query limit_query filter_query nan_answer =
     (let pg = effective_page page_query;
          lmt = effective_limit limit_query;
          skip = skip_of pg lmt;
          matching = filter (matches filter_query user_email) collection;
          count = length matching;
          found = (case (skip, lmt) of
                     (Num s, Num l) \<Rightarrow> Inr (take (nat l) (drop (nat s) (newest_first matching)))
                   | _ \<Rightarrow> nan_answer)
      in case found of
           Inl msg \<Rightarrow> Next msg
         | Inr generations \<Rightarrow>
             Json 200 (ListData generations
               \<lparr>pg_page = pg, pg_limit = lmt, pg_total = count,
                pg_pages = pages_of count lmt\<rparr>))"

section \<open>Authentication (middleware/auth.js)\<close>

text \<open>
  The payload of a token. An access token carries the e-mail and the name of the
  user; a refresh token carries the marker \<open>type: 'refresh'\<close> and no e-mail. Both
  are signed with the same secret.
\<close>

record user =
  usr_id :: string
  usr_email :: string
  usr_name :: "string option"

record token_payload =
  tp_sub :: string
  tp_email :: "string option"
  tp_name :: "string option"
  tp_type :: "string option"

definition issueAccessToken :: "user \<Rightarrow> token_payload" where
  "issueAccessToken u =
     \<lparr>tp_sub = usr_id u, tp_email = Some (usr_email u), tp_name = usr_name u,
      tp_type = None\<rparr>"

definition issueRefreshToken :: "user \<Rightarrow> token_payload" where
  "issueRefreshToken u =
     \<lparr>tp_sub = usr_id u, tp_email = None, tp_name = None, tp_type = Some ''refresh''\<rparr>"

text \<open>
  The \<open>Authorization\<close> header as \<open>requireAuth\<close> sees it: no bearer token, a token
  that \<open>jwt.verify\<close> refuses, or a token signed with the secret, with its payload.
\<close>

datatype bearer = NoToken | BadToken | Verified token_payload

record req_user =
  ru_userId :: string
  ru_email :: "string option"
  ru_name :: "string option"

text \<open>\<open>requireAuth\<close> copies the payload into \<open>req.user\<close>; it does not look at \<open>type\<close>.\<close>

definition requireAuth :: "bearer \<Rightarrow> response + req_user" where
  "requireAuth header =
     (case header of
        NoToken \<Rightarrow> Inl (Json 401 (Failure (Some ''Missing token'')))
      | BadToken \<Rightarrow> Inl (Json 401 (Failure (Some ''invalid token'')))
      | Verified payload \<Rightarrow>
          Inr \<lparr>ru_userId = tp_sub payload, ru_email = tp_email payload,
               ru_name = tp_name payload\<rparr>)"

section \<open>The states the routes can reach\<close>

text \<open>
  One request to a route that writes, run to its end. The database gives a new
  document an id that is not in use.
\<close>

inductive step :: "store \<Rightarrow> store \<Rightarrow> bool" where
  s_create: "new_id e \<notin> dom db \<Longrightarrow>
     post_testcases db user_email body_issueKey e = (r, db', tr) \<Longrightarrow> step db db'"
| s_content: "put_content db user_email rid body_content now = (r, db') \<Longrightarrow> step db db'"
| s_publish: "put_publish db user_email rid body_published now = (r, db') \<Longrightarrow> step db db'"
| s_delete: "delete_generation db user_email rid = (r, db') \<Longrightarrow> step db db'"

text \<open>A store is reachable when such requests produce it from the empty collection.\<close>

inductive reachable :: "store \<Rightarrow> bool" where
  r_empty: "reachable Map.empty"
| r_step: "reachable db \<Longrightarrow> step db db' \<Longrightarrow> reachable db'"

section \<open>Notions used to state the properties\<close>

text \<open>A sequence of content edits by one user on one generation, each with its time.\<close>

fun edit_all :: "store \<Rightarrow> string option \<Rightarrow> gen_id \<Rightarrow> (string \<times> date) list \<Rightarrow> store" where
  "edit_all db user_email gid [] = db"
| "edit_all db user_email gid ((c, now) # rest) =
     edit_all (snd (put_content db user_email (ObjectId gid) (JStr c) now)) user_email gid rest"

text \<open>Each submitted content differs from the content stored just before it.\<close>

fun each_differs :: "string \<Rightarrow> string list \<Rightarrow> bool" where
  "each_differs cur [] = True"
| "each_differs cur (c # cs) = (c \<noteq> cur \<and> each_differs c cs)"

text \<open>The same, and the content stored just before each edit is not empty.\<close>

fun each_replaces_text :: "string \<Rightarrow> string list \<Rightarrow> bool" where
  "each_replaces_text cur [] = True"
| "each_replaces_text cur (c # cs) = (cur \<noteq> [] \<and> c \<noteq> cur \<and> each_replaces_text c cs)"

text \<open>
  The retry schedule in the specification's words: the calls before the \<open>k\<close>-th
  retry are each followed by a pause of \<open>2 ^ attempt\<close> seconds, the attempts
  counted from 1; then comes the last call.
\<close>

definition retry_trace :: "prompt \<Rightarrow> string \<Rightarrow> nat \<Rightarrow> event list" where
  "retry_trace p c k =
     concat (map (\<lambda>i. [ChatCompletion p c, Wait (2 ^ (i + 1) * 1000)]) [0..<k])
       @ [ChatCompletion p c]"

text \<open>The shape of a stored generation in each of its three states.\<close>

definition gen_ok :: "generation \<Rightarrow> bool" where
  "gen_ok gen =
     (case status gen of
        None \<Rightarrow> error gen = None \<and> result_markdown gen = None
      | Some Failed \<Rightarrow> (\<exists>m. error gen = Some m \<and> m \<noteq> []) \<and> result_markdown gen = None
      | Some Completed \<Rightarrow> error gen = None \<and> result_markdown gen \<noteq> None)"

text \<open>The equivalence between the failed state and the error field.\<close>

definition failed_iff :: "generation \<Rightarrow> bool" where
  "failed_iff gen =
     ((status gen = Some Failed) =
      ((\<exists>m. error gen = Some m \<and> m \<noteq> []) \<and> result_markdown gen = None))"

text \<open>The fields a successful publish request writes.\<close>

definition stamp :: "generation \<Rightarrow> bool \<Rightarrow> string option \<Rightarrow> date \<Rightarrow> generation" where
  "stamp gen p user_email now =
     gen\<lparr>published := p, publishedAt := (if p then Some now else None),
         publishedBy := (if p then user_email else None)\<rparr>"

section \<open>A concrete run\<close>

definition demo_env :: env where
  "demo_env =
     \<lparr>new_id = ''g1'',
      findOrCreateProject = (\<lambda>k. Some ''p1''),
      jira = JiraIssue \<lparr>summary = Some ''Login button misaligned'',
                        description_text = Some ''The button is off by 4px'',
                        attachment = None\<rparr>,
      openai_ready = True,
      api = (\<lambda>n. ApiResponse (Some ''# Test Cases for KAN-10'')
                    (Some \<lparr>prompt_tokens = Some 1000, completion_tokens = Some 2000,
                           total_tokens = Some 3000\<rparr>)),
      now_created = 100, now_started = 100, startTime = 101,
      now_completed = 2105, endTime = 2104\<rparr>"

text \<open>The generation that the run creates for \<open>KAN-10\<close>, as the only document.\<close>

definition demo_gen :: generation where
  "demo_gen =
     \<lparr>issueKey = ''KAN-10'', email = Some ''qa@example.com'', project = Some ''p1'',
      mode = Some Manual, status = Some Completed, createdAt = 100,
      startedAt = Some 100, completedAt = Some 2105,
      generationTimeSeconds = Some 2, cost = Some (27 / 20000),
      tokenUsage = Some \<lparr>promptTokens = 1000, completionTokens = 2000, totalTokens = 3000\<rparr>,
      result_markdown = Some \<lparr>content = Some ''# Test Cases for KAN-10'',
                               filename = Some ''KAN-10_testcases_g1.md''\<rparr>,
      error = None, published = False, publishedAt = None, publishedBy = None,
      version = [], currentVersion = Some 1\<rparr>"

definition demo_db :: store where
  "demo_db = Map.empty(''g1'' \<mapsto> demo_gen)"

text \<open>
  The same run for a requester whose token is a refresh token: the document has no
  e-mail.
\<close>

definition demo_user :: user where
  "demo_user = \<lparr>usr_id = ''u1'', usr_email = ''qa@example.com'', usr_name = None\<rparr>"

definition anon_gen :: generation where
  "anon_gen = demo_gen\<lparr>email := None\<rparr>"

definition anon_db :: store where
  "anon_db = Map.empty(''g1'' \<mapsto> anon_gen)"

text \<open>The same document after its owner has saved an empty text.\<close>

definition emptied_db :: store where
  "emptied_db = snd (put_content demo_db (Some ''qa@example.com'') (ObjectId ''g1'') (JStr []) 3000)"

text \<open>A run in which the tracker refuses the credentials.\<close>

definition denied_env :: env where
  "denied_env = demo_env\<lparr>jira := JiraFailure (Some ''JIRA authentication failed'')\<rparr>"

definition failed_gen :: generation where
  "failed_gen =
     (new_generation ''KAN-10'' (Some ''qa@example.com'') (Some ''p1'') demo_env)
       \<lparr>status := Some Failed, error := Some ''JIRA authentication failed'',
        completedAt := Some 2105\<rparr>"

definition failed_db :: store where
  "failed_db = Map.empty(''g1'' \<mapsto> failed_gen)"

text \<open>A run in which every call of the model fails.\<close>

definition flaky_env :: env where
  "flaky_env = demo_env\<lparr>api := (\<lambda>n. ApiError ''rate limit'')\<rparr>"

text \<open>An issue with one picture attached.\<close>

definition picture_issue :: issue_fields where
  "picture_issue =
     \<lparr>summary = Some ''Login'', description_text = None,
      attachment = Some [\<lparr>mimeType = Some ''image/png''\<rparr>]\<rparr>"

section \<open>Facts about the content edit\<close>

lemma demo_db_g1: "demo_db ''g1'' = Some demo_gen"
  by (simp add: demo_db_def)

lemma validates_demo_gen: "validates demo_gen"
  by (simp add: validates_def demo_gen_def)

lemma put_publish_owner:
  assumes "db gid = Some gen" and "email gen = user_email" and "status gen = Some Completed"
    and "validates gen"
  shows "put_publish db user_email (ObjectId gid) (JBool p) now =
          (Json 200 (PublishData p (if p then Some now else None)
                                   (if p then user_email else None)),
           db(gid \<mapsto> stamp gen p user_email now))"
  using assms by (simp add: put_publish_def stamp_def save_def validates_def Let_def)

lemma put_content_owner:
  assumes "db gid = Some gen" and "email gen = user_email" and "status gen = Some Completed"
    and "validates (updateContent gen c user_email now)"
  shows "put_content db user_email (ObjectId gid) (JStr c) now =
           (Json 200 (ContentData c (currentVersionNum (updateContent gen c user_email now))),
            db(gid \<mapsto> updateContent gen c user_email now))"
  using assms by (simp add: put_content_def save_def Let_def)

lemma updateContent_keeps:
  "email (updateContent gen c u now) = email gen"
  "status (updateContent gen c u now) = status gen"
  "currentContent (updateContent gen c u now) = c"
  by (simp_all add: updateContent_def set_content_def track_version_def currentContent_def Let_def
      split: option.splits)

lemma updateContent_validates:
  assumes "validates gen" and "user_email = Some u" and "u \<noteq> []"
  shows "validates (updateContent gen c user_email now)"
  using assms
  by (simp add: updateContent_def set_content_def track_version_def validates_def
      valid_entry_def Let_def)

text \<open>
  Claim C1, as amended. Take an existing, completed generation whose history
  entries all carry their \<open>updatedBy\<close> (as every entry written by this route
  does), edited by its owner, whose e-mail is a non-empty string, under a
  well-formed id. The call answers 200 with the new content; afterwards the stored
  content is the new content in every case; when the stored content was not empty
  and differs from the new one, the outgoing content is appended to the history
  under the current version number, unless an entry with that number is already
  there, and the current version number goes up by one; when the stored content was
  empty or equal to the new one, the current version and the history stay as they
  were.
\<close>

theorem put_content_versioning:
  assumes "db gid = Some gen" and "email gen = user_email" and "status gen = Some Completed"
    and "user_email = Some u" and "u \<noteq> []" and "validates gen"
  shows "\<exists>gen'. put_content db user_email (ObjectId gid) (JStr new_content) now =
            (Json 200 (ContentData new_content (currentVersionNum gen')), db(gid \<mapsto> gen'))
       \<and> (\<exists>m. result_markdown gen' = Some m \<and> content m = Some new_content)
       \<and> (currentContent gen \<noteq> [] \<and> currentContent gen \<noteq> new_content \<longrightarrow>
            currentVersion gen' = Some (currentVersionNum gen + 1)
          \<and> version gen' =
              (if \<exists>v \<in> set (version gen). ver_version v = currentVersionNum gen
               then version gen
               else version gen @
                    [\<lparr>ver_version = currentVersionNum gen, ver_content = currentContent gen,
                      ver_updatedAt = now, ver_updatedBy = user_email, ver_notes = None\<rparr>]))
       \<and> (currentContent gen = [] \<or> currentContent gen = new_content \<longrightarrow>
            currentVersion gen' = currentVersion gen \<and> version gen' = version gen)"
proof -
  let ?g = "updateContent gen new_content user_email now"
  have ok: "validates ?g"
    using assms(6,4,5) by (rule updateContent_validates)
  have run: "put_content db user_email (ObjectId gid) (JStr new_content) now =
            (Json 200 (ContentData new_content (currentVersionNum ?g)), db(gid \<mapsto> ?g))"
    using assms(1,2,3) ok by (rule put_content_owner)
  have md: "\<exists>m. result_markdown ?g = Some m \<and> content m = Some new_content"
    by (simp add: updateContent_def set_content_def split: option.splits)
  have ch: "currentVersion ?g = Some (currentVersionNum gen + 1)
          \<and> version ?g =
              (if \<exists>v \<in> set (version gen). ver_version v = currentVersionNum gen
               then version gen
               else version gen @
                    [\<lparr>ver_version = currentVersionNum gen, ver_content = currentContent gen,
                      ver_updatedAt = now, ver_updatedBy = user_email, ver_notes = None\<rparr>])"
    if "currentContent gen \<noteq> [] \<and> currentContent gen \<noteq> new_content"
    using that
    by (simp add: updateContent_def set_content_def track_version_def Let_def list_ex_iff)
  have same: "currentVersion ?g = currentVersion gen \<and> version ?g = version gen"
    if "currentContent gen = [] \<or> currentContent gen = new_content"
    using that
    by (auto simp: updateContent_def set_content_def track_version_def Let_def)
  from run md ch same show ?thesis by blast
qed

theorem put_content_versioning_witness:
  "demo_db ''g1'' = Some demo_gen \<and> email demo_gen = Some ''qa@example.com''
   \<and> status demo_gen = Some Completed \<and> validates demo_gen
   \<and> (\<exists>gen'. snd (put_content demo_db (Some ''qa@example.com'') (ObjectId ''g1'')
                       (JStr ''new text'') 3000) ''g1''
                = Some gen'
            \<and> currentContent gen' = ''new text''
            \<and> currentVersion gen' = Some 2
            \<and> map ver_version (version gen') = [1]
            \<and> map ver_content (version gen') = [''# Test Cases for KAN-10''])"
proof -
  have h1: "demo_db ''g1'' = Some demo_gen" by (simp add: demo_db_def)
  have h2: "email demo_gen = Some ''qa@example.com''" by (simp add: demo_gen_def)
  have h3: "status demo_gen = Some Completed" by (simp add: demo_gen_def)
  have h4: "Some ''qa@example.com'' = Some ''qa@example.com''" by simp
  have h5: "''qa@example.com'' \<noteq> []" by simp
  have h6: "validates demo_gen" by (rule validates_demo_gen)
  have cur: "currentContent demo_gen = ''# Test Cases for KAN-10''"
    by (simp add: demo_gen_def currentContent_def)
  have num: "currentVersionNum demo_gen = 1"
    by (simp add: demo_gen_def currentVersionNum_def)
  have hist: "version demo_gen = []" by (simp add: demo_gen_def)
  from put_content_versioning[where db = demo_db and gid = "''g1''" and gen = demo_gen
      and user_email = "Some ''qa@example.com''" and u = "''qa@example.com''"
      and new_content = "''new text''" and now = 3000,
      OF h1 h2 h3 h4 h5 h6]
  obtain gen' where
    run: "put_content demo_db (Some ''qa@example.com'') (ObjectId ''g1'') (JStr ''new text'') 3000 =
            (Json 200 (ContentData ''new text'' (currentVersionNum gen')),
             demo_db(''g1'' \<mapsto> gen'))"
    and md: "\<exists>m. result_markdown gen' = Some m \<and> content m = Some ''new text''"
    and ch: "currentContent demo_gen \<noteq> [] \<and> currentContent demo_gen \<noteq> ''new text'' \<longrightarrow>
            currentVersion gen' = Some (currentVersionNum demo_gen + 1)
          \<and> version gen' =
              (if \<exists>v \<in> set (version demo_gen). ver_version v = currentVersionNum demo_gen
               then version demo_gen
               else version demo_gen @
                    [\<lparr>ver_version = currentVersionNum demo_gen,
                      ver_content = currentContent demo_gen,
                      ver_updatedAt = 3000, ver_updatedBy = Some ''qa@example.com'',
                      ver_notes = None\<rparr>])"
    by blast
  from md have c': "currentContent gen' = ''new text''"
    by (auto simp: currentContent_def)
  from ch cur num hist have v': "currentVersion gen' = Some 2"
    and h': "version gen' = [\<lparr>ver_version = 1, ver_content = ''# Test Cases for KAN-10'',
                      ver_updatedAt = 3000, ver_updatedBy = Some ''qa@example.com'',
                      ver_notes = None\<rparr>]"
    by simp_all
  from run have "snd (put_content demo_db (Some ''qa@example.com'') (ObjectId ''g1'')
                       (JStr ''new text'') 3000) ''g1''
                = Some gen'" by simp
  with h1 h2 h3 h6 c' v' h' show ?thesis by simp
qed

text \<open>
  Claim C1 as stated fails: the owner has saved an empty text, and then saves
  \<open>abc\<close>. The new content differs from the stored one, and yet the current
  version is not incremented and no snapshot is taken.
\<close>

theorem put_content_empty_stored_counterexample:
  "email (the (emptied_db ''g1'')) = Some ''qa@example.com''
   \<and> status (the (emptied_db ''g1'')) = Some Completed
   \<and> currentContent (the (emptied_db ''g1'')) \<noteq> ''abc''
   \<and> fst (put_content emptied_db (Some ''qa@example.com'') (ObjectId ''g1'') (JStr ''abc'') 4000)
       = Json 200 (ContentData ''abc'' 2)
   \<and> currentVersion
        (the (snd (put_content emptied_db (Some ''qa@example.com'') (ObjectId ''g1'')
                     (JStr ''abc'') 4000) ''g1''))
       = currentVersion (the (emptied_db ''g1''))
   \<and> version
        (the (snd (put_content emptied_db (Some ''qa@example.com'') (ObjectId ''g1'')
                     (JStr ''abc'') 4000) ''g1''))
       = version (the (emptied_db ''g1''))"
  by (simp add: emptied_db_def demo_db_def demo_gen_def put_content_def updateContent_def
      set_content_def track_version_def currentContent_def currentVersionNum_def save_def
      validates_def valid_entry_def Let_def)

text \<open>
  Outside the amended claim: for a requester without e-mail who owns a document
  without e-mail, an edit that takes a snapshot is refused by the validation of the
  save; nothing is stored and the error is passed on.
\<close>

lemma put_content_without_email:
  "put_content anon_db None (ObjectId ''g1'') (JStr ''abc'') 4000 =
     (Next ''ValidationError: version: Path `updatedBy` is required.'', anon_db)"
  by (simp add: anon_db_def anon_gen_def demo_gen_def put_content_def updateContent_def
      set_content_def track_version_def currentContent_def currentVersionNum_def save_def
      validates_def valid_entry_def Let_def)

section \<open>Sequences of edits\<close>

lemma updateContent_change:
  assumes "currentContent gen \<noteq> []" and "c \<noteq> currentContent gen"
    and "currentVersion gen = Some (int k + 1)"
    and "map ver_version (version gen) = map int [1..<Suc k]"
  shows "currentVersion (updateContent gen c u now) = Some (int (Suc k) + 1)"
    and "map ver_version (version (updateContent gen c u now)) = map int [1..<Suc (Suc k)]"
proof -
  have num: "currentVersionNum gen = int k + 1"
    using assms(3) by (simp add: currentVersionNum_def)
  have "int k + 1 \<notin> set (map ver_version (version gen))"
    unfolding assms(4) by auto
  then have fresh: "\<not> list_ex (\<lambda>v. ver_version v = int k + 1) (version gen)"
    by (force simp: list_ex_iff)
  show "currentVersion (updateContent gen c u now) = Some (int (Suc k) + 1)"
    using assms(1,2) num by (simp add: updateContent_def set_content_def track_version_def Let_def)
  show "map ver_version (version (updateContent gen c u now)) = map int [1..<Suc (Suc k)]"
    using assms(1,2,4) num fresh
    by (simp add: updateContent_def set_content_def track_version_def Let_def)
qed

lemma edit_all_counts:
  assumes "db gid = Some gen" and "email gen = user_email" and "status gen = Some Completed"
    and "user_email = Some u" and "u \<noteq> []" and "validates gen"
    and "currentVersion gen = Some (int k + 1)"
    and "map ver_version (version gen) = map int [1..<Suc k]"
    and "each_replaces_text (currentContent gen) (map fst edits)"
  shows "\<exists>gen'. edit_all db user_email gid edits gid = Some gen'
           \<and> currentVersion gen' = Some (int (k + length edits) + 1)
           \<and> map ver_version (version gen') = map int [1..<Suc (k + length edits)]"
  using assms
proof (induction edits arbitrary: db gen k)
  case Nil
  then show ?case by simp
next
  case (Cons ed rest)
  obtain c now where ed: "ed = (c, now)" by (cases ed)
  let ?g = "updateContent gen c user_email now"
  let ?db = "db(gid \<mapsto> ?g)"
  from Cons.prems(9) ed have ne: "currentContent gen \<noteq> []" and diff: "c \<noteq> currentContent gen"
    and rest: "each_replaces_text c (map fst rest)" by auto
  have ok: "validates ?g"
    using Cons.prems(6,4,5) by (rule updateContent_validates)
  have step: "edit_all db user_email gid (ed # rest) = edit_all ?db user_email gid rest"
    using put_content_owner[where db = db and gid = gid and gen = gen
        and user_email = user_email and c = c and now = now] Cons.prems(1,2,3) ok ed
    by simp
  have "\<exists>gen'. edit_all ?db user_email gid rest gid = Some gen'
           \<and> currentVersion gen' = Some (int (Suc k + length rest) + 1)
           \<and> map ver_version (version gen') = map int [1..<Suc (Suc k + length rest)]"
  proof (rule Cons.IH)
    show "?db gid = Some ?g" by simp
    show "email ?g = user_email" using Cons.prems(2) by (simp add: updateContent_keeps)
    show "status ?g = Some Completed" using Cons.prems(3) by (simp add: updateContent_keeps)
    show "user_email = Some u" by (rule Cons.prems(4))
    show "u \<noteq> []" by (rule Cons.prems(5))
    show "validates ?g" by (rule ok)
    show "currentVersion ?g = Some (int (Suc k) + 1)"
      by (rule updateContent_change(1)[OF ne diff Cons.prems(7,8)])
    show "map ver_version (version ?g) = map int [1..<Suc (Suc k)]"
      by (rule updateContent_change(2)[OF ne diff Cons.prems(7,8)])
    show "each_replaces_text (currentContent ?g) (map fst rest)"
      using rest by (simp add: updateContent_keeps)
  qed
  then show ?case using step by simp
qed

section \<open>What one request does to the store\<close>

lemma post_testcases_store:
  assumes "post_testcases db u k e = (r, db', tr)"
  shows "db' = db \<or> (\<exists>gen. db' = db(new_id e \<mapsto> gen) \<and> gen_ok gen \<and> failed_iff gen
            \<and> mode gen = Some Manual \<and> currentVersion gen = Some 1 \<and> validates gen)"
  using assms
  by (auto simp: post_testcases_def Let_def new_generation_def gen_ok_def failed_iff_def
      validates_def
      split: option.splits jira_reply.splits sum.splits prod.splits if_splits)

lemma put_content_store:
  assumes "put_content db u rid b now = (r, db')"
  shows "db' = db \<or> (\<exists>gid gen c. db gid = Some gen \<and> status gen = Some Completed
            \<and> validates (updateContent gen c u now)
            \<and> db' = db(gid \<mapsto> updateContent gen c u now))"
  using assms
  by (auto simp: put_content_def save_def Let_def
      split: json_value.splits id_param.splits option.splits if_splits)

lemma stamp_fields_ok:
  "gen_ok (gen\<lparr>published := p, publishedAt := pa, publishedBy := pb\<rparr>) = gen_ok gen"
  "failed_iff (gen\<lparr>published := p, publishedAt := pa, publishedBy := pb\<rparr>) = failed_iff gen"
  "validates (gen\<lparr>published := p, publishedAt := pa, publishedBy := pb\<rparr>) = validates gen"
  by (simp_all add: gen_ok_def failed_iff_def validates_def
      split: option.splits gen_status.splits)

lemma put_publish_store:
  assumes "put_publish db u rid b now = (r, db')"
  shows "db' = db \<or> (\<exists>gid gen pa pb p. db gid = Some gen \<and> validates gen
            \<and> db' = db(gid \<mapsto> gen\<lparr>published := p, publishedAt := pa, publishedBy := pb\<rparr>))"
  using assms
proof (cases b)
  case (JBool p)
  show ?thesis
  proof (cases rid)
    case (MalformedId s)
    with assms JBool show ?thesis by (simp add: put_publish_def)
  next
    case (ObjectId gid)
    show ?thesis
    proof (cases "db gid")
      case None
      with assms JBool ObjectId show ?thesis by (simp add: put_publish_def)
    next
      case (Some gen)
      show ?thesis
      proof (cases "email gen = u \<and> status gen = Some Completed \<and> validates gen")
        case False
        with assms JBool ObjectId Some show ?thesis
          by (auto simp: put_publish_def save_def Let_def stamp_fields_ok split: if_splits)
      next
        case True
        with assms JBool ObjectId Some
        have "db' = db(gid \<mapsto> gen\<lparr>published := p,
                publishedAt := (if p then Some now else None),
                publishedBy := (if p then u else None)\<rparr>)"
          by (auto simp: put_publish_def save_def Let_def stamp_fields_ok)
        with Some True show ?thesis by blast
      qed
    qed
  qed
qed (use assms in \<open>simp_all add: put_publish_def\<close>)

lemma delete_generation_store:
  assumes "delete_generation db u rid = (r, db')"
  shows "db' = db \<or> (\<exists>gid. db' = db(gid := None))"
  using assms
  by (auto simp: delete_generation_def split: id_param.splits option.splits if_splits)

lemma updateContent_version_mono:
  "currentVersionNum gen \<le> currentVersionNum (updateContent gen c u now)"
  by (simp add: updateContent_def set_content_def track_version_def currentVersionNum_def Let_def
      split: option.splits)

lemma updateContent_ok:
  "status gen = Some Completed \<Longrightarrow> gen_ok gen \<Longrightarrow> gen_ok (updateContent gen c u now)"
  by (simp add: updateContent_def set_content_def track_version_def gen_ok_def Let_def)

lemma updateContent_failed_iff:
  "status gen = Some Completed \<Longrightarrow> failed_iff (updateContent gen c u now)"
  by (simp add: updateContent_def set_content_def track_version_def failed_iff_def Let_def)

lemma step_version_mono:
  assumes "step db db'" and "db gid = Some gen" and "db' gid = Some gen'"
  shows "currentVersionNum gen \<le> currentVersionNum gen'"
  using assms
proof (cases rule: step.cases)
  case (s_create e user_email body_issueKey r tr)
  from post_testcases_store[OF s_create(2)] s_create(1) assms(2,3) show ?thesis
    by (auto split: if_splits)
next
  case (s_content user_email rid body_content now r)
  from put_content_store[OF s_content] assms(2,3) show ?thesis
    by (auto simp: updateContent_version_mono split: if_splits)
next
  case (s_publish user_email rid body_published now r)
  from put_publish_store[OF s_publish] assms(2,3) show ?thesis
    by (auto simp: currentVersionNum_def split: if_splits)
next
  case (s_delete user_email rid r)
  from delete_generation_store[OF s_delete] assms(2,3) show ?thesis
    by (auto split: if_splits)
qed

lemma step_gen_ok:
  assumes "step db db'" and "\<forall>g \<in> ran db. gen_ok g"
  shows "\<forall>g \<in> ran db'. gen_ok g"
proof
  fix g assume "g \<in> ran db'"
  then obtain gid where g: "db' gid = Some g" by (auto simp: ran_def)
  have old: "\<And>i x. db i = Some x \<Longrightarrow> gen_ok x" using assms(2) by (auto simp: ran_def)
  from assms(1) show "gen_ok g"
  proof (cases rule: step.cases)
    case (s_create e user_email body_issueKey r tr)
    from post_testcases_store[OF s_create(2)] g old show ?thesis
      by (auto split: if_splits)
  next
    case (s_content user_email rid body_content now r)
    from put_content_store[OF s_content] g old show ?thesis
      by (auto simp: updateContent_ok split: if_splits)
  next
    case (s_publish user_email rid body_published now r)
    from put_publish_store[OF s_publish] g old show ?thesis
      by (auto simp: stamp_fields_ok split: if_splits)
  next
    case (s_delete user_email rid r)
    from delete_generation_store[OF s_delete] g old show ?thesis
      by (auto split: if_splits)
  qed
qed

lemma step_failed_iff:
  assumes "step db db'" and "\<forall>g \<in> ran db. failed_iff g"
  shows "\<forall>g \<in> ran db'. failed_iff g"
proof
  fix g assume "g \<in> ran db'"
  then obtain gid where g: "db' gid = Some g" by (auto simp: ran_def)
  have old: "\<And>i x. db i = Some x \<Longrightarrow> failed_iff x" using assms(2) by (auto simp: ran_def)
  from assms(1) show "failed_iff g"
  proof (cases rule: step.cases)
    case (s_create e user_email body_issueKey r tr)
    from post_testcases_store[OF s_create(2)] g old show ?thesis
      by (auto split: if_splits)
  next
    case (s_content user_email rid body_content now r)
    from put_content_store[OF s_content] g old show ?thesis
      by (auto simp: updateContent_failed_iff split: if_splits)
  next
    case (s_publish user_email rid body_published now r)
    from put_publish_store[OF s_publish] g old show ?thesis
      by (auto simp: stamp_fields_ok split: if_splits)
  next
    case (s_delete user_email rid r)
    from delete_generation_store[OF s_delete] g old show ?thesis
      by (auto split: if_splits)
  qed
qed

lemma step_validates:
  assumes "step db db'" and "\<forall>g \<in> ran db. validates g"
  shows "\<forall>g \<in> ran db'. validates g"
proof
  fix g assume "g \<in> ran db'"
  then obtain gid where g: "db' gid = Some g" by (auto simp: ran_def)
  have old: "\<And>i x. db i = Some x \<Longrightarrow> validates x" using assms(2) by (auto simp: ran_def)
  from assms(1) show "validates g"
  proof (cases rule: step.cases)
    case (s_create e user_email body_issueKey r tr)
    from post_testcases_store[OF s_create(2)] g old show ?thesis
      by (auto split: if_splits)
  next
    case (s_content user_email rid body_content now r)
    from put_content_store[OF s_content] g old show ?thesis
      by (auto split: if_splits)
  next
    case (s_publish user_email rid body_published now r)
    from put_publish_store[OF s_publish] g old show ?thesis
      by (auto simp: stamp_fields_ok split: if_splits)
  next
    case (s_delete user_email rid r)
    from delete_generation_store[OF s_delete] g old show ?thesis
      by (auto split: if_splits)
  qed
qed

lemma reachable_gen_ok: "reachable db \<Longrightarrow> \<forall>g \<in> ran db. gen_ok g"
  by (induction rule: reachable.induct) (simp_all add: step_gen_ok)

text \<open>Every history entry of a document the routes have stored carries its \<open>updatedBy\<close>.\<close>

lemma reachable_validates: "reachable db \<Longrightarrow> \<forall>g \<in> ran db. validates g"
  by (induction rule: reachable.induct) (simp_all add: step_validates)

section \<open>The concrete run, evaluated\<close>

lemma demo_round: "round2 101 2104 = 2"
  by (simp add: round2_def floor_eq_iff)

lemma demo_run:
  "post_testcases Map.empty (Some ''qa@example.com'') (Some ''KAN-10'') demo_env =
     (Json 200 (CreatedData
        \<lparr>cd_generationId = ''g1'', cd_issueKey = ''KAN-10'',
         cd_markdown = \<lparr>content = Some ''# Test Cases for KAN-10'',
                        filename = Some ''KAN-10_testcases_g1.md''\<rparr>,
         cd_generationTimeSeconds = Some 2, cd_cost = Some (27 / 20000)\<rparr>),
      demo_db,
      [JiraGetIssue ''KAN-10'',
       ChatCompletion MANUAL_PROMPT
         (userMessage ''KAN-10''
            ''Title: Login button misaligned Description:The button is off by 4px'')])"
  by (simp add: post_testcases_def demo_env_def demo_db_def demo_gen_def extractProject_def
      is_alnum_def upper_char_def new_generation_def or_empty_def generate_markdown_def
      generateTestCase_def attempt_def maxRetries_def or0_def totalCost_def ensure_title_def
      demo_round Let_def)

lemma denied_run:
  "post_testcases Map.empty (Some ''qa@example.com'') (Some ''KAN-10'') denied_env =
     (Json 404 (Failure (Some ''JIRA authentication failed'')), failed_db,
      [JiraGetIssue ''KAN-10''])"
  by (simp add: post_testcases_def denied_env_def demo_env_def failed_db_def failed_gen_def
      extractProject_def is_alnum_def upper_char_def new_generation_def or_empty_def Let_def)

lemma reachable_demo_db: "reachable demo_db"
proof -
  have "step Map.empty demo_db"
    by (rule s_create[where e = demo_env, OF _ demo_run]) (simp add: demo_env_def)
  with r_empty show ?thesis by (rule r_step)
qed

lemma gen_ok_failed_iff: "gen_ok gen \<Longrightarrow> failed_iff gen"
  by (auto simp: gen_ok_def failed_iff_def split: option.splits gen_status.splits)

lemma reachable_failed_db: "reachable failed_db"
proof -
  have "step Map.empty failed_db"
    by (rule s_create[where e = denied_env, OF _ denied_run])
       (simp add: denied_env_def demo_env_def)
  with r_empty show ?thesis by (rule r_step)
qed

lemma reachable_emptied_db: "reachable emptied_db"
proof -
  have "step demo_db emptied_db"
    unfolding emptied_db_def
    by (rule s_content[where r = "fst (put_content demo_db (Some ''qa@example.com'')
                                         (ObjectId ''g1'') (JStr []) 3000)"]) simp
  with reachable_demo_db show ?thesis by (rule r_step)
qed

lemma anon_run:
  "fst (snd (post_testcases Map.empty None (Some ''KAN-10'') demo_env)) = anon_db"
  by (simp add: post_testcases_def demo_env_def anon_db_def anon_gen_def demo_gen_def
      extractProject_def is_alnum_def upper_char_def new_generation_def or_empty_def
      generate_markdown_def generateTestCase_def attempt_def maxRetries_def or0_def
      totalCost_def ensure_title_def demo_round Let_def)

lemma reachable_anon_db: "reachable anon_db"
proof -
  have "step Map.empty (fst (snd (post_testcases Map.empty None (Some ''KAN-10'') demo_env)))"
    by (rule s_create[where e = demo_env and user_email = None
          and body_issueKey = "Some ''KAN-10''"
          and r = "fst (post_testcases Map.empty None (Some ''KAN-10'') demo_env)"
          and tr = "snd (snd (post_testcases Map.empty None (Some ''KAN-10'') demo_env))"])
       (simp_all add: demo_env_def)
  then have "step Map.empty anon_db" by (simp only: anon_run)
  with r_empty show ?thesis by (rule r_step)
qed

section \<open>Version monotonicity\<close>

text \<open>
  Claim C2, as amended. Take a completed generation at current version 1 with an
  empty history, and any sequence of N edits by its owner, whose e-mail is a
  non-empty string, in which each submitted content differs from the content stored
  just before it and that stored content is not empty. Afterwards the current
  version is 1 + N and the history has exactly N entries, numbered 1 to N in this
  order. Moreover no request to a writing route lowers the current version number
  of a generation that is in the store before and after it.
\<close>

theorem version_monotonicity:
  "(db gid = Some gen \<and> email gen = user_email \<and> status gen = Some Completed
      \<and> user_email = Some u \<and> u \<noteq> []
      \<and> currentVersion gen = Some 1 \<and> version gen = []
      \<and> each_replaces_text (currentContent gen) (map fst edits)
    \<longrightarrow> (\<exists>gen'. edit_all db user_email gid edits gid = Some gen'
           \<and> currentVersion gen' = Some (1 + int (length edits))
           \<and> length (version gen') = length edits
           \<and> map ver_version (version gen') = map int [1..<Suc (length edits)]))
   \<and> (step db db_next \<and> db gid = Some gen \<and> db_next gid = Some gen_next
    \<longrightarrow> currentVersionNum gen \<le> currentVersionNum gen_next)"
proof -
  have edits_part: "\<exists>gen'. edit_all db user_email gid edits gid = Some gen'
           \<and> currentVersion gen' = Some (1 + int (length edits))
           \<and> length (version gen') = length edits
           \<and> map ver_version (version gen') = map int [1..<Suc (length edits)]"
    if a: "db gid = Some gen \<and> email gen = user_email \<and> status gen = Some Completed
      \<and> user_email = Some u \<and> u \<noteq> []
      \<and> currentVersion gen = Some 1 \<and> version gen = []
      \<and> each_replaces_text (currentContent gen) (map fst edits)"
  proof -
    from a have "\<exists>gen'. edit_all db user_email gid edits gid = Some gen'
           \<and> currentVersion gen' = Some (int (0 + length edits) + 1)
           \<and> map ver_version (version gen') = map int [1..<Suc (0 + length edits)]"
      by (intro edit_all_counts[where gen = gen and u = u]) (simp_all add: validates_def)
    then obtain gen' where g: "edit_all db user_email gid edits gid = Some gen'"
      "currentVersion gen' = Some (int (length edits) + 1)"
      "map ver_version (version gen') = map int [1..<Suc (length edits)]"
      by auto
    from g(3) have "length (version gen') = length [1..<Suc (length edits)]"
      by (metis length_map)
    then have "length (version gen') = length edits" by (simp del: upt_Suc)
    with g show ?thesis by simp
  qed
  have step_part: "currentVersionNum gen \<le> currentVersionNum gen_next"
    if "step db db_next \<and> db gid = Some gen \<and> db_next gid = Some gen_next"
    using that step_version_mono by blast
  from edits_part step_part show ?thesis by blast
qed

theorem version_monotonicity_witness:
  "(\<exists>gen'. edit_all demo_db (Some ''qa@example.com'') ''g1''
              [(''first'', 3000), (''second'', 4000)] ''g1''
             = Some gen'
          \<and> currentVersion gen' = Some 3
          \<and> length (version gen') = 2
          \<and> map ver_version (version gen') = [1, 2])
   \<and> step demo_db (snd (put_content demo_db (Some ''qa@example.com'') (ObjectId ''g1'')
                          (JStr ''first'') 3000))
   \<and> currentVersionNum demo_gen
       \<le> currentVersionNum (updateContent demo_gen ''first'' (Some ''qa@example.com'') 3000)"
proof -
  let ?edits = "[(''first'', 3000), (''second'', 4000)] :: (string \<times> date) list"
  let ?g2 = "updateContent demo_gen ''first'' (Some ''qa@example.com'') 3000"
  let ?db2 = "snd (put_content demo_db (Some ''qa@example.com'') (ObjectId ''g1'')
                     (JStr ''first'') 3000)"
  note inst = version_monotonicity[where db = demo_db and gid = "''g1''" and gen = demo_gen
      and user_email = "Some ''qa@example.com''" and u = "''qa@example.com''"
      and edits = "?edits" and db_next = "?db2" and gen_next = "?g2"]
  have h1: "demo_db ''g1'' = Some demo_gen \<and> email demo_gen = Some ''qa@example.com''
      \<and> status demo_gen = Some Completed
      \<and> Some ''qa@example.com'' = Some ''qa@example.com'' \<and> ''qa@example.com'' \<noteq> []
      \<and> currentVersion demo_gen = Some 1 \<and> version demo_gen = []
      \<and> each_replaces_text (currentContent demo_gen) (map fst ?edits)"
    by (simp add: demo_db_def demo_gen_def currentContent_def)
  have st: "step demo_db ?db2"
    by (rule s_content[where r = "fst (put_content demo_db (Some ''qa@example.com'')
                                         (ObjectId ''g1'') (JStr ''first'') 3000)"]) simp
  have ok: "validates ?g2"
    by (rule updateContent_validates[OF validates_demo_gen, where u = "''qa@example.com''"])
       simp_all
  have own: "email demo_gen = Some ''qa@example.com''" "status demo_gen = Some Completed"
    by (simp_all add: demo_gen_def)
  have db2: "?db2 ''g1'' = Some ?g2"
    by (simp add: put_content_owner[where db = demo_db and gid = "''g1''" and gen = demo_gen
          and user_email = "Some ''qa@example.com''" and c = "''first''" and now = 3000,
          OF demo_db_g1 own ok])
  from inst h1 have "\<exists>gen'. edit_all demo_db (Some ''qa@example.com'') ''g1'' ?edits ''g1'' = Some gen'
           \<and> currentVersion gen' = Some (1 + int (length ?edits))
           \<and> length (version gen') = length ?edits
           \<and> map ver_version (version gen') = map int [1..<Suc (length ?edits)]"
    by blast
  moreover from inst st h1 db2 have "currentVersionNum demo_gen \<le> currentVersionNum ?g2"
    by blast
  ultimately show ?thesis using st by (simp add: upt_rec numeral_2_eq_2)
qed

text \<open>
  Claim C2 as stated fails: the owner first saves an empty text and then \<open>abc\<close>.
  Each of the two contents differs from the one stored before it, and after the two
  edits the current version is 2, not 3, and the history has one entry.
\<close>

theorem version_count_counterexample:
  "currentVersion demo_gen = Some 1 \<and> version demo_gen = []
   \<and> each_differs (currentContent demo_gen) (map fst [([], 3000 :: date), (''abc'', 4000)])
   \<and> currentVersion
        (the (edit_all demo_db (Some ''qa@example.com'') ''g1''
                [([], 3000), (''abc'', 4000)] ''g1''))
       = Some 2
   \<and> map ver_version
        (version (the (edit_all demo_db (Some ''qa@example.com'') ''g1''
                         [([], 3000), (''abc'', 4000)] ''g1'')))
       = [1]"
  by (simp add: demo_db_def demo_gen_def put_content_def updateContent_def
      set_content_def track_version_def currentContent_def currentVersionNum_def save_def
      validates_def valid_entry_def Let_def)

section \<open>The failed state and the error field\<close>

text \<open>
  Claim C7. In every store the routes can reach, a generation is failed exactly when
  its error is a non-empty string and its markdown result is absent, and a completed
  generation has a markdown result and no error. No single request (create, edit,
  publish, delete) breaks the equivalence in a store where it holds.
\<close>

theorem failed_iff_error_invariant:
  "(reachable db \<and> db gid = Some gen
    \<longrightarrow> ((status gen = Some Failed) =
          ((\<exists>m. error gen = Some m \<and> m \<noteq> []) \<and> result_markdown gen = None))
        \<and> (status gen = Some Completed \<longrightarrow> result_markdown gen \<noteq> None \<and> error gen = None))
   \<and> (step db db' \<and> (\<forall>g \<in> ran db. failed_iff g) \<longrightarrow> (\<forall>g \<in> ran db'. failed_iff g))"
proof -
  have reach_part: "((status gen = Some Failed) =
          ((\<exists>m. error gen = Some m \<and> m \<noteq> []) \<and> result_markdown gen = None))
        \<and> (status gen = Some Completed \<longrightarrow> result_markdown gen \<noteq> None \<and> error gen = None)"
    if a: "reachable db \<and> db gid = Some gen"
  proof -
    from a have "gen \<in> ran db" by (auto simp: ran_def)
    with a reachable_gen_ok have ok: "gen_ok gen" by blast
    from gen_ok_failed_iff[OF ok] have "(status gen = Some Failed) =
          ((\<exists>m. error gen = Some m \<and> m \<noteq> []) \<and> result_markdown gen = None)"
      by (simp add: failed_iff_def)
    moreover have "status gen = Some Completed \<longrightarrow> result_markdown gen \<noteq> None \<and> error gen = None"
      using ok by (auto simp: gen_ok_def split: option.splits gen_status.splits)
    ultimately show ?thesis by blast
  qed
  have step_part: "\<forall>g \<in> ran db'. failed_iff g"
    if "step db db' \<and> (\<forall>g \<in> ran db. failed_iff g)"
    using that step_failed_iff by blast
  from reach_part step_part show ?thesis by blast
qed

theorem failed_iff_error_invariant_witness:
  "reachable failed_db \<and> failed_db ''g1'' = Some failed_gen
   \<and> status failed_gen = Some Failed
   \<and> (\<exists>m. error failed_gen = Some m \<and> m \<noteq> []) \<and> result_markdown failed_gen = None
   \<and> step demo_db (snd (put_publish demo_db (Some ''qa@example.com'') (ObjectId ''g1'') (JBool True) 9000))
   \<and> failed_iff demo_gen
   \<and> failed_iff (stamp demo_gen True (Some ''qa@example.com'') 9000)"
proof -
  let ?db' = "snd (put_publish demo_db (Some ''qa@example.com'') (ObjectId ''g1'') (JBool True) 9000)"
  note inst1 = failed_iff_error_invariant[where db = failed_db and gid = "''g1''"
      and gen = failed_gen]
  note inst2 = failed_iff_error_invariant[where db = demo_db and db' = "?db'"]
  have h1: "reachable failed_db \<and> failed_db ''g1'' = Some failed_gen"
    using reachable_failed_db by (simp add: failed_db_def)
  have f: "status failed_gen = Some Failed"
    by (simp add: failed_gen_def)
  from inst1 h1 f have iff: "(\<exists>m. error failed_gen = Some m \<and> m \<noteq> []) \<and> result_markdown failed_gen = None"
    by blast
  have st: "step demo_db ?db'"
    by (rule s_publish[where r = "fst (put_publish demo_db (Some ''qa@example.com'') (ObjectId ''g1'') (JBool True) 9000)"]) simp
  have ok: "failed_iff demo_gen"
    by (simp add: failed_iff_def demo_gen_def)
  have "ran demo_db = {demo_gen}" by (simp add: demo_db_def)
  with ok have all: "\<forall>g \<in> ran demo_db. failed_iff g" by simp
  have own: "email demo_gen = (Some ''qa@example.com'')" "status demo_gen = Some Completed"
    by (simp_all add: demo_gen_def)
  have "?db' ''g1'' = Some (stamp demo_gen True (Some ''qa@example.com'') 9000)"
    by (simp add: put_publish_owner[where db = demo_db and gid = "''g1''" and gen = demo_gen
          and user_email = "Some ''qa@example.com''", OF demo_db_g1 own validates_demo_gen])
  then have "stamp demo_gen True (Some ''qa@example.com'') 9000 \<in> ran ?db'"
    by (rule ranI)
  moreover from inst2 st all have "\<forall>g \<in> ran ?db'. failed_iff g" by blast
  ultimately have "failed_iff (stamp demo_gen True (Some ''qa@example.com'') 9000)" by blast
  with h1 st f iff ok show ?thesis by blast
qed

section \<open>Tracker failure during creation\<close>

text \<open>
  Claim C3, at the failing input. The tracker answers \<open>JIRA authentication failed\<close>.
  The creation route stores the generation as failed, with that message and a
  completion time, and answers 404 whatever the message says; the classification by
  message, which gives 401 here, is made by the preflight route only.
\<close>

theorem testcases_tracker_failure_status:
  "post_testcases Map.empty (Some ''qa@example.com'') (Some ''KAN-10'') denied_env =
     (Json 404 (Failure (Some ''JIRA authentication failed'')),
      Map.empty(''g1'' \<mapsto> failed_gen), [JiraGetIssue ''KAN-10''])
   \<and> status failed_gen = Some Failed
   \<and> error failed_gen = Some ''JIRA authentication failed''
   \<and> completedAt failed_gen = Some 2105
   \<and> statusCode ''JIRA authentication failed'' = 401
   \<and> post_preflight (Some ''KAN-10'') (jira denied_env) =
       Json 401 (Failure (Some ''JIRA authentication failed''))"
proof -
  have sc: "statusCode ''JIRA authentication failed'' = 401"
    by (simp add: statusCode_def)
  then have "post_preflight (Some ''KAN-10'') (jira denied_env) =
       Json 401 (Failure (Some ''JIRA authentication failed''))"
    by (simp add: post_preflight_def denied_env_def demo_env_def or_empty_def)
  with sc denied_run show ?thesis
    by (simp add: failed_db_def failed_gen_def)
qed

section \<open>Access control of view and download\<close>

text \<open>
  Claim C4, as amended. For a request whose id is a well-formed ObjectId, both
  routes answer 404 when the generation does not exist and when \<open>canView\<close> is
  false. When \<open>canView\<close> is true, the view route answers with the content; the
  download route sends the content when the generation is completed and answers
  400 \<open>Not completed\<close> otherwise.
\<close>

theorem view_download_access:
  "(db gid = None \<longrightarrow> get_view db requesterEmail (ObjectId gid) = not_found
                      \<and> get_download db requesterEmail (ObjectId gid) = not_found)
   \<and> (db gid = Some gen \<and> \<not> canView gen requesterEmail \<longrightarrow>
        get_view db requesterEmail (ObjectId gid) = not_found
      \<and> get_download db requesterEmail (ObjectId gid) = not_found)
   \<and> (db gid = Some gen \<and> canView gen requesterEmail \<longrightarrow>
        (\<exists>d. get_view db requesterEmail (ObjectId gid) = Json 200 (ViewData d)
            \<and> vd_content d = currentContent gen)
      \<and> get_download db requesterEmail (ObjectId gid) =
          (if status gen = Some Completed
           then SendFile (currentFilename gen) (currentContent gen)
           else Json 400 (Failure (Some ''Not completed''))))"
  by (auto simp: get_view_def get_download_def canView_def Let_def)

theorem view_download_access_witness:
  "get_view Map.empty (Some ''eve@example.com'') (ObjectId ''g1'') = not_found
   \<and> get_download Map.empty (Some ''eve@example.com'') (ObjectId ''g1'') = not_found
   \<and> \<not> canView demo_gen (Some ''eve@example.com'')
   \<and> get_view demo_db (Some ''eve@example.com'') (ObjectId ''g1'') = not_found
   \<and> get_download demo_db (Some ''eve@example.com'') (ObjectId ''g1'') = not_found
   \<and> canView demo_gen (Some ''qa@example.com'')
   \<and> (\<exists>d. get_view demo_db (Some ''qa@example.com'') (ObjectId ''g1'') = Json 200 (ViewData d)
          \<and> vd_content d = ''# Test Cases for KAN-10'')
   \<and> get_download demo_db (Some ''qa@example.com'') (ObjectId ''g1'') =
        SendFile ''KAN-10_testcases_g1.md'' ''# Test Cases for KAN-10''"
proof -
  have none: "(Map.empty :: store) ''g1'' = None" by simp
  have some: "demo_db ''g1'' = Some demo_gen" by (rule demo_db_g1)
  have no: "\<not> canView demo_gen (Some ''eve@example.com'')"
    by (simp add: canView_def demo_gen_def)
  have yes: "canView demo_gen (Some ''qa@example.com'')"
    by (simp add: canView_def demo_gen_def)
  have vals: "status demo_gen = Some Completed"
    "currentFilename demo_gen = ''KAN-10_testcases_g1.md''"
    "currentContent demo_gen = ''# Test Cases for KAN-10''"
    by (simp_all add: demo_gen_def currentFilename_def currentContent_def)
  from none view_download_access[where db = Map.empty and gid = "''g1''"
      and requesterEmail = "Some ''eve@example.com''"]
  have a: "get_view Map.empty (Some ''eve@example.com'') (ObjectId ''g1'') = not_found
     \<and> get_download Map.empty (Some ''eve@example.com'') (ObjectId ''g1'') = not_found"
    by blast
  from some no view_download_access[where db = demo_db and gid = "''g1''" and gen = demo_gen
      and requesterEmail = "Some ''eve@example.com''"]
  have b: "get_view demo_db (Some ''eve@example.com'') (ObjectId ''g1'') = not_found
     \<and> get_download demo_db (Some ''eve@example.com'') (ObjectId ''g1'') = not_found"
    by blast
  from some yes view_download_access[where db = demo_db and gid = "''g1''" and gen = demo_gen
      and requesterEmail = "Some ''qa@example.com''"]
  have c: "(\<exists>d. get_view demo_db (Some ''qa@example.com'') (ObjectId ''g1'') = Json 200 (ViewData d)
            \<and> vd_content d = currentContent demo_gen)
      \<and> get_download demo_db (Some ''qa@example.com'') (ObjectId ''g1'') =
          (if status demo_gen = Some Completed
           then SendFile (currentFilename demo_gen) (currentContent demo_gen)
           else Json 400 (Failure (Some ''Not completed'')))"
    by blast
  from a b c no yes show ?thesis by (simp add: vals)
qed

text \<open>
  Claim C4 as stated fails: the owner of a failed generation may view it, and the
  download route answers 400 instead of the content.
\<close>

theorem download_failed_counterexample:
  "failed_db ''g1'' = Some failed_gen
   \<and> canView failed_gen (Some ''qa@example.com'')
   \<and> get_download failed_db (Some ''qa@example.com'') (ObjectId ''g1'') =
       Json 400 (Failure (Some ''Not completed''))"
  by (simp add: failed_db_def failed_gen_def new_generation_def canView_def get_download_def)

text \<open>
  Outside the amended claim: for an id that is no ObjectId the lookup throws, and
  every route that looks a generation up passes the error on; none of them answers
  404 and none touches the store.
\<close>

lemma malformed_id_passed_on:
  "get_view db requesterEmail (MalformedId s) = Next (cast_error s)"
  "get_download db requesterEmail (MalformedId s) = Next (cast_error s)"
  "put_content db requesterEmail (MalformedId s) (JStr c) now = (Next (cast_error s), db)"
  "put_publish db requesterEmail (MalformedId s) (JBool p) now = (Next (cast_error s), db)"
  "delete_generation db requesterEmail (MalformedId s) = (Next (cast_error s), db)"
  by (simp_all add: get_view_def get_download_def put_content_def put_publish_def
      delete_generation_def)

section \<open>Publication gate\<close>

text \<open>
  For an owner and a completed generation with a valid history, publishing and
  unpublishing both answer 200: publishing stamps the time and the e-mail of the
  requester, unpublishing clears both fields (lemma \<open>put_publish_owner\<close>); the same
  request sent again succeeds as well.
\<close>

lemma put_publish_again:
  assumes "db gid = Some gen" and "email gen = user_email" and "status gen = Some Completed"
    and "validates gen"
  shows "put_publish (snd (put_publish db user_email (ObjectId gid) (JBool p) now))
           user_email (ObjectId gid) (JBool p) later =
          (Json 200 (PublishData p (if p then Some later else None)
                                   (if p then user_email else None)),
           db(gid \<mapsto> stamp gen p user_email later))"
proof -
  let ?g = "stamp gen p user_email now"
  let ?db = "db(gid \<mapsto> ?g)"
  have first: "snd (put_publish db user_email (ObjectId gid) (JBool p) now) = ?db"
    by (simp add: put_publish_owner[where db = db and gid = gid and gen = gen, OF assms])
  have g: "?db gid = Some ?g" by simp
  have o: "email ?g = user_email" and c: "status ?g = Some Completed" and v: "validates ?g"
    using assms(2,3,4) by (simp_all add: stamp_def validates_def)
  have "stamp ?g p user_email later = stamp gen p user_email later"
    by (cases gen) (simp add: stamp_def)
  then show ?thesis
    unfolding first
    by (simp add: put_publish_owner[where db = "?db" and gid = gid and gen = "?g", OF g o c v])
qed

text \<open>
  Claim C5, at the failing input. \<open>requireAuth\<close> accepts a refresh token, whose
  payload has no e-mail. A requester with such a token creates a generation, which
  is stored without e-mail, and publishes it: the route answers 200 and stores
  \<open>published = true\<close> with \<open>publishedAt\<close> set and \<open>publishedBy\<close> absent.
\<close>

theorem publish_without_publisher:
  "requireAuth (Verified (issueRefreshToken demo_user)) =
     Inr \<lparr>ru_userId = ''u1'', ru_email = None, ru_name = None\<rparr>
   \<and> fst (snd (post_testcases Map.empty None (Some ''KAN-10'') demo_env)) = anon_db
   \<and> put_publish anon_db None (ObjectId ''g1'') (JBool True) 5000 =
       (Json 200 (PublishData True (Some 5000) None),
        anon_db(''g1'' \<mapsto> anon_gen\<lparr>published := True, publishedAt := Some 5000,
                                    publishedBy := None\<rparr>))
   \<and> published (the (snd (put_publish anon_db None (ObjectId ''g1'') (JBool True) 5000) ''g1''))
       = True
   \<and> publishedBy (the (snd (put_publish anon_db None (ObjectId ''g1'') (JBool True) 5000) ''g1''))
       = None"
proof -
  have auth: "requireAuth (Verified (issueRefreshToken demo_user)) =
     Inr \<lparr>ru_userId = ''u1'', ru_email = None, ru_name = None\<rparr>"
    by (simp add: requireAuth_def issueRefreshToken_def demo_user_def)
  have pub: "put_publish anon_db None (ObjectId ''g1'') (JBool True) 5000 =
       (Json 200 (PublishData True (Some 5000) None),
        anon_db(''g1'' \<mapsto> anon_gen\<lparr>published := True, publishedAt := Some 5000,
                                    publishedBy := None\<rparr>))"
    by (simp add: put_publish_def anon_db_def anon_gen_def demo_gen_def save_def
        validates_def)
  from auth anon_run pub show ?thesis by simp
qed

section \<open>The retry loop\<close>

lemma retry_loop_spec:
  assumes "n \<le> maxRetries" and "retry_loop replies p c n tr = (out, tr')"
  shows "\<exists>k. n \<le> k \<and> k \<le> maxRetries
      \<and> tr' = tr @ concat (map (\<lambda>i. [ChatCompletion p c, Wait (2 ^ (i + 1) * 1000)]) [n..<k])
                 @ [ChatCompletion p c]
      \<and> (\<forall>i. n \<le> i \<and> i < k \<longrightarrow> isl (attempt (replies i)))
      \<and> (case out of
            Returned r \<Rightarrow> attempt (replies k) = Inr r
          | Threw m \<Rightarrow> k = maxRetries \<and> attempt (replies k) = Inl m
          | FellThrough \<Rightarrow> False)"
  using assms
proof (induction replies p c n tr rule: retry_loop.induct)
  case (1 replies p c n tr)
  show ?case
  proof (cases "attempt (replies n)")
    case (Inr r)
    with "1.prems" have "out = Returned r" "tr' = tr @ [ChatCompletion p c]"
      by (simp_all add: retry_loop.simps[of replies p c n tr])
    with Inr "1.prems"(1) show ?thesis
      by (intro exI[of _ n]) auto
  next
    case (Inl err)
    show ?thesis
    proof (cases "n + 1 \<le> maxRetries")
      case True
      with Inl "1.prems" have rec: "retry_loop replies p c (n + 1)
          (tr @ [ChatCompletion p c, Wait (2 ^ (n + 1) * 1000)]) = (out, tr')"
        by (simp add: retry_loop.simps[of replies p c n tr] Let_def del: retry_loop.simps)
      from "1.IH"[OF "1.prems"(1) Inl refl True refl True rec]
      obtain k where k: "n + 1 \<le> k" "k \<le> maxRetries"
        "tr' = (tr @ [ChatCompletion p c, Wait (2 ^ (n + 1) * 1000)])
           @ concat (map (\<lambda>i. [ChatCompletion p c, Wait (2 ^ (i + 1) * 1000)]) [n + 1..<k])
           @ [ChatCompletion p c]"
        "\<forall>i. n + 1 \<le> i \<and> i < k \<longrightarrow> isl (attempt (replies i))"
        "case out of
            Returned r \<Rightarrow> attempt (replies k) = Inr r
          | Threw m \<Rightarrow> k = maxRetries \<and> attempt (replies k) = Inl m
          | FellThrough \<Rightarrow> False"
        by blast
      from k(1) have upt: "[n..<k] = n # [n + 1..<k]"
        by (simp add: upt_conv_Cons)
      have first: "\<forall>i. n \<le> i \<and> i < k \<longrightarrow> isl (attempt (replies i))"
      proof (intro allI impI)
        fix i assume "n \<le> i \<and> i < k"
        then have "i = n \<or> (n + 1 \<le> i \<and> i < k)" by arith
        with k(4) Inl show "isl (attempt (replies i))" by auto
      qed
      from k(1,2,3,5) first show ?thesis
        by (intro exI[of _ k]) (simp add: upt)
    next
      case False
      with Inl "1.prems" have "out = Threw err" "tr' = tr @ [ChatCompletion p c]"
        by (simp_all add: retry_loop.simps[of replies p c n tr] Let_def del: retry_loop.simps)
      moreover from False "1.prems"(1) have "n = maxRetries" by simp
      ultimately show ?thesis using Inl
        by (intro exI[of _ n]) auto
    qed
  qed
qed

lemma retry_trace_upt:
  "retry_trace p c k =
     [] @ concat (map (\<lambda>i. [ChatCompletion p c, Wait (2 ^ (i + 1) * 1000)]) [0..<k])
       @ [ChatCompletion p c]"
  by (simp add: retry_trace_def)

lemma retry_trace_full:
  "retry_trace p c maxRetries =
     [ChatCompletion p c, Wait 2000, ChatCompletion p c, Wait 4000,
      ChatCompletion p c, Wait 8000, ChatCompletion p c]"
  by (simp add: retry_trace_def maxRetries_def upt_rec numeral_3_eq_3)


lemma generateTestCase_spec:
  assumes "generateTestCase replies context key autoMode = (out, tr)"
  shows "\<exists>k \<le> maxRetries.
        tr = retry_trace (if autoMode = Some True then AUTO_PROMPT else MANUAL_PROMPT)
               (userMessage key context) k
      \<and> (\<forall>i < k. isl (attempt (replies i)))
      \<and> (case out of
            Returned r \<Rightarrow> attempt (replies k) = Inr r
          | Threw m \<Rightarrow> k = maxRetries \<and> attempt (replies k) = Inl m
          | FellThrough \<Rightarrow> False)"
proof -
  let ?p = "if autoMode = Some True then AUTO_PROMPT else MANUAL_PROMPT"
  have p: "(if (case autoMode of None \<Rightarrow> False | Some b \<Rightarrow> b) then AUTO_PROMPT else MANUAL_PROMPT) = ?p"
    by (cases autoMode) auto
  from assms have run: "retry_loop replies ?p (userMessage key context) 0 [] = (out, tr)"
    unfolding generateTestCase_def Let_def p .
  from retry_loop_spec[OF _ run] show ?thesis
    unfolding retry_trace_upt by auto
qed

lemma generateTestCase_all_fail:
  assumes "\<forall>i \<le> maxRetries. attempt (replies i) = Inl (msg i)"
  shows "generateTestCase replies context key autoMode =
           (Threw (msg maxRetries),
            retry_trace (if autoMode = Some True then AUTO_PROMPT else MANUAL_PROMPT)
              (userMessage key context) maxRetries)"
proof -
  obtain out tr where run: "generateTestCase replies context key autoMode = (out, tr)"
    by (cases "generateTestCase replies context key autoMode")
  from generateTestCase_spec[OF run] obtain k where k: "k \<le> maxRetries"
    "tr = retry_trace (if autoMode = Some True then AUTO_PROMPT else MANUAL_PROMPT)
               (userMessage key context) k"
    "case out of
            Returned r \<Rightarrow> attempt (replies k) = Inr r
          | Threw m \<Rightarrow> k = maxRetries \<and> attempt (replies k) = Inl m
          | FellThrough \<Rightarrow> False"
    by blast
  from assms k(1) have fail: "attempt (replies k) = Inl (msg k)" by simp
  from k(3) fail have "out = Threw (msg maxRetries) \<and> k = maxRetries"
    by (cases out) auto
  with run k(2) show ?thesis by simp
qed



text \<open>
  Claim C6. A run of \<open>generateTestCase\<close> makes at most four calls: it stops at the
  first call that succeeds, every failed call but the fourth is followed by a pause
  of 2, 4 and 8 seconds in turn, and the failure of the fourth call is thrown to
  the caller; the function always returns or throws. When all four calls fail, the
  creation route stores the generation as failed, with the message of the last
  failure behind the prefix \<open>OpenAI generation failed: \<close>, and answers 500 with
  that message. When the tracker fails, the route has asked it exactly once and
  makes no call to the model.
\<close>

theorem retry_policy:
  "(generateTestCase replies ctx key autoMode = (out, tr) \<longrightarrow>
      (\<exists>k \<le> maxRetries.
          tr = retry_trace (if autoMode = Some True then AUTO_PROMPT else MANUAL_PROMPT)
                 (userMessage key ctx) k
        \<and> (\<forall>i < k. isl (attempt (replies i)))
        \<and> (case out of
              Returned r \<Rightarrow> attempt (replies k) = Inr r
            | Threw m \<Rightarrow> k = maxRetries \<and> attempt (replies k) = Inl m
            | FellThrough \<Rightarrow> False)))
   \<and> maxRetries = 3
   \<and> retry_trace p c maxRetries =
       [ChatCompletion p c, Wait 2000, ChatCompletion p c, Wait 4000,
        ChatCompletion p c, Wait 8000, ChatCompletion p c]
   \<and> (key \<noteq> [] \<and> jira e = JiraIssue flds \<and> openai_ready e
        \<and> (\<forall>i \<le> maxRetries. attempt (api e i) = Inl (msg i)) \<longrightarrow>
      (\<exists>gen d. post_testcases db user_email (Some key) e =
          (Json 500 (Failure (Some (if msg maxRetries = [] then ''Failed to generate test cases''
                                    else msg maxRetries))),
           db(new_id e \<mapsto> gen),
           JiraGetIssue key # retry_trace MANUAL_PROMPT d maxRetries)
        \<and> status gen = Some Failed
        \<and> error gen = Some (''OpenAI generation failed: '' @ msg maxRetries)
        \<and> completedAt gen = Some (now_completed e)))
   \<and> (key \<noteq> [] \<and> jira e = JiraFailure err \<longrightarrow>
        snd (snd (post_testcases db user_email (Some key) e)) = [JiraGetIssue key])"
proof -
  have loop: "\<exists>k \<le> maxRetries.
          tr = retry_trace (if autoMode = Some True then AUTO_PROMPT else MANUAL_PROMPT)
                 (userMessage key ctx) k
        \<and> (\<forall>i < k. isl (attempt (replies i)))
        \<and> (case out of
              Returned r \<Rightarrow> attempt (replies k) = Inr r
            | Threw m \<Rightarrow> k = maxRetries \<and> attempt (replies k) = Inl m
            | FellThrough \<Rightarrow> False)"
    if "generateTestCase replies ctx key autoMode = (out, tr)"
    using that by (rule generateTestCase_spec)
  have handler: "\<exists>gen d. post_testcases db user_email (Some key) e =
          (Json 500 (Failure (Some (if msg maxRetries = [] then ''Failed to generate test cases''
                                    else msg maxRetries))),
           db(new_id e \<mapsto> gen),
           JiraGetIssue key # retry_trace MANUAL_PROMPT d maxRetries)
        \<and> status gen = Some Failed
        \<and> error gen = Some (''OpenAI generation failed: '' @ msg maxRetries)
        \<and> completedAt gen = Some (now_completed e)"
    if a: "key \<noteq> [] \<and> jira e = JiraIssue flds \<and> openai_ready e
        \<and> (\<forall>i \<le> maxRetries. attempt (api e i) = Inl (msg i))"
  proof -
    from a have fail: "\<forall>i \<le> maxRetries. attempt (api e i) = Inl (msg i)" by simp
    have gm: "generate_markdown e ctx key s =
        (Inl (msg maxRetries), retry_trace MANUAL_PROMPT (userMessage key ctx) maxRetries)" for ctx s
      using a by (simp add: generate_markdown_def
          generateTestCase_all_fail[OF fail, where autoMode = None])
    let ?ctx = "''Title: '' @ or_empty (summary flds) @ '' Description:''
                  @ or_empty (description_text flds)"
    let ?gen = "(new_generation key user_email
                   (case extractProject key of None \<Rightarrow> None
                    | Some projectKey \<Rightarrow> findOrCreateProject e projectKey) e)
                 \<lparr>status := Some Failed,
                  error := Some (''OpenAI generation failed: '' @ msg maxRetries),
                  completedAt := Some (now_completed e)\<rparr>"
    have run: "post_testcases db user_email (Some key) e =
          (Json 500 (Failure (Some (if msg maxRetries = [] then ''Failed to generate test cases''
                                    else msg maxRetries))),
           db(new_id e \<mapsto> ?gen),
           JiraGetIssue key # retry_trace MANUAL_PROMPT (userMessage key ?ctx) maxRetries)"
      using a by (simp add: post_testcases_def Let_def gm)
    have "status ?gen = Some Failed
        \<and> error ?gen = Some (''OpenAI generation failed: '' @ msg maxRetries)
        \<and> completedAt ?gen = Some (now_completed e)"
      by simp
    with run show ?thesis by blast
  qed
  have tracker: "snd (snd (post_testcases db user_email (Some key) e)) = [JiraGetIssue key]"
    if "key \<noteq> [] \<and> jira e = JiraFailure err"
    using that by (simp add: post_testcases_def Let_def)
  from loop handler tracker retry_trace_full[of p c] show ?thesis
    by (simp add: maxRetries_def)
qed

theorem retry_policy_witness:
  "generateTestCase (api flaky_env) ''some context'' ''KAN-10'' None =
     (Threw ''rate limit'',
      [ChatCompletion MANUAL_PROMPT (userMessage ''KAN-10'' ''some context''), Wait 2000,
       ChatCompletion MANUAL_PROMPT (userMessage ''KAN-10'' ''some context''), Wait 4000,
       ChatCompletion MANUAL_PROMPT (userMessage ''KAN-10'' ''some context''), Wait 8000,
       ChatCompletion MANUAL_PROMPT (userMessage ''KAN-10'' ''some context'')])
   \<and> fst (post_testcases Map.empty (Some ''qa@example.com'') (Some ''KAN-10'') flaky_env) =
        Json 500 (Failure (Some ''rate limit''))
   \<and> (\<exists>gen. fst (snd (post_testcases Map.empty (Some ''qa@example.com'') (Some ''KAN-10'') flaky_env)) ''g1''
               = Some gen
           \<and> status gen = Some Failed
           \<and> error gen = Some ''OpenAI generation failed: rate limit''
           \<and> completedAt gen = Some 2105)
   \<and> snd (snd (post_testcases Map.empty (Some ''qa@example.com'') (Some ''KAN-10'') denied_env)) =
        [JiraGetIssue ''KAN-10'']"
proof -
  let ?c = "userMessage ''KAN-10'' ''some context''"
  let ?flds = "\<lparr>summary = Some ''Login button misaligned'',
                description_text = Some ''The button is off by 4px'',
                attachment = None\<rparr>"
  have fail: "\<forall>i \<le> maxRetries. attempt (api flaky_env i) = Inl ((\<lambda>_. ''rate limit'') i)"
    by (simp add: flaky_env_def demo_env_def attempt_def)
  have run: "generateTestCase (api flaky_env) ''some context'' ''KAN-10'' None =
      (Threw ''rate limit'', retry_trace MANUAL_PROMPT ?c maxRetries)"
    using generateTestCase_all_fail[OF fail, where autoMode = None] by simp
  have h2: "''KAN-10'' \<noteq> [] \<and> jira flaky_env = JiraIssue ?flds \<and> openai_ready flaky_env
        \<and> (\<forall>i \<le> maxRetries. attempt (api flaky_env i) = Inl ((\<lambda>_. ''rate limit'') i))"
    using fail by (simp add: flaky_env_def demo_env_def)
  have h3: "''KAN-10'' \<noteq> [] \<and> jira denied_env = JiraFailure (Some ''JIRA authentication failed'')"
    by (simp add: denied_env_def demo_env_def)
  note inst1 = retry_policy[where replies = "api flaky_env" and ctx = "''some context''"
      and key = "''KAN-10''" and autoMode = None and out = "Threw ''rate limit''"
      and tr = "retry_trace MANUAL_PROMPT ?c maxRetries" and p = MANUAL_PROMPT and c = "?c"
      and e = flaky_env and flds = "?flds" and msg = "\<lambda>_. ''rate limit''"
      and db = Map.empty and user_email = "Some ''qa@example.com''"]
  note inst2 = retry_policy[where key = "''KAN-10''" and e = denied_env
      and err = "Some ''JIRA authentication failed''"
      and db = Map.empty and user_email = "Some ''qa@example.com''"]
  from inst1 have full: "retry_trace MANUAL_PROMPT ?c maxRetries =
       [ChatCompletion MANUAL_PROMPT ?c, Wait 2000, ChatCompletion MANUAL_PROMPT ?c, Wait 4000,
        ChatCompletion MANUAL_PROMPT ?c, Wait 8000, ChatCompletion MANUAL_PROMPT ?c]"
    by blast
  from inst1 h2 obtain gen d where
    post: "post_testcases Map.empty (Some ''qa@example.com'') (Some ''KAN-10'') flaky_env =
          (Json 500 (Failure (Some (if ''rate limit'' = [] then ''Failed to generate test cases''
                                    else ''rate limit''))),
           Map.empty(new_id flaky_env \<mapsto> gen),
           JiraGetIssue ''KAN-10'' # retry_trace MANUAL_PROMPT d maxRetries)"
    and gen: "status gen = Some Failed"
      "error gen = Some (''OpenAI generation failed: '' @ ''rate limit'')"
      "completedAt gen = Some (now_completed flaky_env)"
    by blast
  from inst2 h3 have tracker:
    "snd (snd (post_testcases Map.empty (Some ''qa@example.com'') (Some ''KAN-10'') denied_env)) =
        [JiraGetIssue ''KAN-10'']"
    by blast
  have id: "new_id flaky_env = ''g1''" "now_completed flaky_env = 2105"
    by (simp_all add: flaky_env_def demo_env_def)
  from run full post gen tracker show ?thesis
    by (simp add: id)
qed

section \<open>The mode of a created generation\<close>





section \<open>The preflight estimate\<close>

text \<open>
  Claim C8, at the failing input: an issue with the summary \<open>Login\<close>, no description
  and one attachment of MIME type \<open>image/png\<close>. The claim gives the estimate
  \<open>ceil(6 / 4) + 200 = 202\<close> tokens; the handler throws a \<open>TypeError\<close> in the
  attachment filter and gives no estimate.
\<close>

theorem preflight_image_attachment_throws:
  "attachment picture_issue = Some [\<lparr>mimeType = Some ''image/png''\<rparr>]
   \<and> post_preflight (Some ''KAN-10'') (JiraIssue picture_issue) =
       Uncaught ''TypeError: att.mimeType?.startWiths is not a function''
   \<and> estimateTokens (length (''Login'' @ '' '' @ [])) 1 = 202"
proof -
  have c: "\<lceil>(3::rat) / 2\<rceil> = 2" by (simp add: ceiling_eq_iff)
  show ?thesis
    by (simp add: picture_issue_def post_preflight_def or_empty_def estimateTokens_def c)
qed

text \<open>
  When the route does answer, no image allowance is part of the estimate, and the
  cost estimate follows the formula. The cost stored with a completed generation
  follows its formula as well.
\<close>

lemma preflight_answer:
  assumes "post_preflight body_issueKey (JiraIssue flds) = Json 200 (PreflightData d)"
  shows "pf_estimatedTokens d =
           estimateTokens (length (or_empty (summary flds) @ '' '' @ or_empty (description_text flds))) 0"
    and "pf_estimatedCost d =
           (of_nat (pf_estimatedTokens d) / 1000000) * (15 / 100) + (8000 / 1000000) * (60 / 100)"
proof -
  have "imageAttachments atts = Inr imgs \<Longrightarrow> imgs = []" for atts imgs
    by (induction atts) (auto split: option.splits)
  with assms show "pf_estimatedTokens d =
           estimateTokens (length (or_empty (summary flds) @ '' '' @ or_empty (description_text flds))) 0"
    by (auto simp: post_preflight_def Let_def estimateTokens_def
        split: if_splits sum.splits option.splits)
  from assms show "pf_estimatedCost d =
           (of_nat (pf_estimatedTokens d) / 1000000) * (15 / 100) + (8000 / 1000000) * (60 / 100)"
    by (auto simp: post_preflight_def Let_def estimateCost_def
        split: if_splits sum.splits option.splits)
qed

lemma attempt_cost:
  "attempt reply = Inr r \<Longrightarrow> gr_cost r = totalCost (gr_tokenUsage r)"
  by (auto simp: attempt_def Let_def split: api_reply.splits option.splits if_splits)

lemma generate_markdown_cost:
  assumes "generate_markdown e ctx key s = (Inr (md, usage, c), tr)"
  shows "\<exists>u. usage = Some u \<and> c = Some (totalCost u)"
proof -
  from assms have ready: "openai_ready e"
    by (auto simp: generate_markdown_def split: if_splits)
  obtain out gtr where run: "generateTestCase (api e) ctx key None = (out, gtr)"
    by (cases "generateTestCase (api e) ctx key None")
  from assms ready run obtain r where r: "out = Returned r"
    "usage = Some (gr_tokenUsage r)" "c = Some (gr_cost r)"
    by (cases out) (auto simp: generate_markdown_def)
  from generateTestCase_spec[OF run] r(1) obtain k where "attempt (api e k) = Inr r"
    by auto
  from attempt_cost[OF this] r show ?thesis by simp
qed

lemma created_cost:
  assumes "post_testcases db u b e = (Json 200 (CreatedData d), db', tr)"
  shows "\<exists>gen usage. db' (new_id e) = Some gen \<and> status gen = Some Completed
           \<and> tokenUsage gen = Some usage
           \<and> cost gen = Some ((of_nat (promptTokens usage) / 1000000) * (15 / 100)
                              + (of_nat (completionTokens usage) / 1000000) * (60 / 100))
           \<and> cd_cost d = cost gen"
proof -
  from assms obtain key where b: "b = Some key" "key \<noteq> []"
    by (cases b) (auto simp: post_testcases_def split: if_splits)
  from assms b obtain flds where j: "jira e = JiraIssue flds"
    by (cases "jira e") (auto simp: post_testcases_def Let_def)
  let ?s = "or_empty (summary flds)"
  let ?ctx = "''Title: '' @ ?s @ '' Description:'' @ or_empty (description_text flds)"
  obtain res gtr where gm: "generate_markdown e ?ctx key ?s = (res, gtr)"
    by (cases "generate_markdown e ?ctx key ?s")
  from assms b j gm obtain md usage c where res: "res = Inr (md, usage, c)"
    by (cases res) (auto simp: post_testcases_def Let_def)
  from generate_markdown_cost[OF gm[unfolded res]] obtain us where
    us: "usage = Some us" "c = Some (totalCost us)" by blast
  from assms b j gm res us show ?thesis
    by (auto simp: post_testcases_def Let_def totalCost_def)
qed

section \<open>Pagination parameters\<close>

text \<open>
  Claim C9, at the failing input: the query \<open>page=abc\<close>. \<open>parseInt\<close> gives
  \<open>NaN\<close>, which \<open>Math.max(1, NaN)\<close> hands on, so the effective page is not a
  number at least 1, and the skip is \<open>NaN\<close> too; in the same way \<open>limit=abc\<close>
  gives a limit outside 1 to 50 and a page count that is \<open>NaN\<close>.
\<close>

theorem list_page_not_a_number:
  "parseInt ''abc'' = NaN
   \<and> effective_page (Some ''abc'') = NaN
   \<and> effective_limit (Some ''abc'') = NaN
   \<and> skip_of (effective_page (Some ''abc'')) (effective_limit None) = NaN
   \<and> pages_of 1 (effective_limit (Some ''abc'')) = NaN
   \<and> get_list [demo_gen] (Some ''qa@example.com'') (Some ''abc'') None None (Inr []) =
       Json 200 (ListData []
         \<lparr>pg_page = NaN, pg_limit = Num 10, pg_total = 1, pg_pages = Num 1\<rparr>)"
  by (simp add: parseInt_def is_space_def is_digit_def digits_value_def effective_page_def
      effective_limit_def query_or_def or_empty_def skip_of_def get_list_def matches_def
      demo_gen_def ceiling_eq_iff Let_def)

text \<open>For parameters that are numbers the clamping is as the specification says.\<close>

lemma list_params_numeric:
  assumes "parseInt (query_or page_query ''1'') = Num a"
    and "parseInt (query_or limit_query ''10'') = Num b"
  shows "effective_page page_query = Num (max 1 a)"
    and "effective_limit limit_query = Num (min 50 (max 1 b))"
    and "skip_of (effective_page page_query) (effective_limit limit_query)
           = Num ((max 1 a - 1) * min 50 (max 1 b))"
  using assms by (simp_all add: effective_page_def effective_limit_def skip_of_def)

lemma list_defaults:
  "effective_page None = Num 1" "effective_limit None = Num 10"
  "effective_page (Some ''3'') = Num 3" "effective_limit (Some ''500'') = Num 50"
  "effective_page (Some ''-2'') = Num 1" "effective_limit (Some ''0'') = Num 1"
  by (simp_all add: parseInt_def is_space_def is_digit_def digits_value_def effective_page_def
      effective_limit_def query_or_def or_empty_def)

end
